theory Spec2Isabelle
  imports Main "HOL-Library.AList" "HOL-Library.Char_ord" "HOL-Library.List_Lexorder"
begin

section \<open>Python values and exceptions\<close>

text \<open>
  The interview document and the settings are plain nested Python values as a YAML
  loader produces them: \<open>None\<close>, booleans, integers, strings, lists and dictionaries with
  string keys. A dictionary is an association list in insertion order with distinct keys:
  \<open>map_of\<close> is the lookup \<open>d[k]\<close> and \<open>AList.update\<close> is the assignment \<open>d[k] = v\<close>
  (an existing key keeps its position, a new key goes to the end). Floating-point numbers
  are not represented.
\<close>

datatype pyval =
    PNone
  | PBool bool
  | PInt int
  | PStr string
  | PList "pyval list"
  | PDict "(string \<times> pyval) list"

datatype exn =
    KeyError
  | ValueError string
  | TypeError
  | AttributeError
  | NameError
  | UnboundLocalError
  | IndexError
  | ZeroDivisionError
  | BadItem string
  | PyException string
  | OSError
  | RetryWalk
  | Unmodelled

type_synonym pydict = "(string \<times> pyval) list"

fun is_dict :: "pyval \<Rightarrow> bool" where
  "is_dict (PDict d) = True"
| "is_dict v = False"

text \<open>Python's \<open>==\<close> on these values: \<open>True == 1\<close>, lists elementwise, dictionaries
  as mappings (order does not matter).\<close>

fun py_eq :: "pyval \<Rightarrow> pyval \<Rightarrow> bool" where
  "py_eq PNone PNone = True"
| "py_eq (PBool a) (PBool b) = (a = b)"
| "py_eq (PBool a) (PInt n) = ((if a then 1 else 0) = n)"
| "py_eq (PInt n) (PBool a) = (n = (if a then 1 else 0))"
| "py_eq (PInt m) (PInt n) = (m = n)"
| "py_eq (PStr s) (PStr t) = (s = t)"
| "py_eq (PList xs) (PList ys) = list_all2 py_eq xs ys"
| "py_eq (PDict a) (PDict b) =
     (length a = length b \<and>
      list_all (\<lambda>(k, v). case map_of b k of None \<Rightarrow> False | Some v' \<Rightarrow> py_eq v v') a)"
| "py_eq v w = False"

text \<open>\<open>t in s\<close> on strings: \<open>t\<close> occurs in \<open>s\<close> as a contiguous substring.\<close>

fun substr :: "string \<Rightarrow> string \<Rightarrow> bool" where
  "substr t [] = (t = [])"
| "substr t (c # s) = (take (length t) (c # s) = t \<or> substr t s)"

text \<open>The operator \<open>x in c\<close> for a container \<open>c\<close>.\<close>

fun py_in :: "pyval \<Rightarrow> pyval \<Rightarrow> exn + bool" where
  "py_in x (PList ys) = Inr (list_ex (py_eq x) ys)"
| "py_in (PStr t) (PStr s) = Inr (substr t s)"
| "py_in x (PStr s) = Inl TypeError"
| "py_in (PList xs) (PDict d) = Inl TypeError"
| "py_in (PDict e) (PDict d) = Inl TypeError"
| "py_in (PStr k) (PDict d) = Inr (k \<in> set (map fst d))"
| "py_in x (PDict d) = Inr False"
| "py_in x c = Inl TypeError"

text \<open>The assignment \<open>c[k] = x\<close> with a string \<open>k\<close>: only a dictionary accepts it.\<close>

fun py_setitem :: "pyval \<Rightarrow> string \<Rightarrow> pyval \<Rightarrow> exn + pyval" where
  "py_setitem (PDict d) k x = Inr (PDict (AList.update k x d))"
| "py_setitem c k x = Inl TypeError"

text \<open>\<open>s.split(sep)\<close> for a one-character separator, and \<open>s.split(sep, 1)\<close>.\<close>

fun split_on :: "char \<Rightarrow> string \<Rightarrow> string list" where
  "split_on sep [] = [[]]"
| "split_on sep (c # s) =
     (let r = split_on sep s in
      if c = sep then [] # r else (c # hd r) # tl r)"

fun split1 :: "char \<Rightarrow> string \<Rightarrow> string list" where
  "split1 sep [] = [[]]"
| "split1 sep (c # s) =
     (if c = sep then [[], s]
      else (let r = split1 sep s in (c # hd r) # tl r))"

section \<open>Settings store: \<open>DottedDictWrapper\<close> (lib.py)\<close>

text \<open>\<open>_find(keys)\<close>: follow the segments from the root; a missing key or a non-dictionary
  on the way raises \<open>KeyError\<close>.\<close>

fun ddw_find :: "string list \<Rightarrow> pyval \<Rightarrow> exn + pyval" where
  "ddw_find [] v = Inr v"
| "ddw_find (k # ks) (PDict d) =
     (case map_of d k of None \<Rightarrow> Inl KeyError | Some c \<Rightarrow> ddw_find ks c)"
| "ddw_find (k # ks) v = Inl KeyError"

definition ddw_contains :: "pydict \<Rightarrow> pyval \<Rightarrow> bool" where
  "ddw_contains d key =
     (case key of
        PStr s \<Rightarrow>
          (case ddw_find (split_on CHR ''.'' s) (PDict d) of Inl e \<Rightarrow> False | Inr v \<Rightarrow> True)
      | _ \<Rightarrow> False)"

text \<open>\<open>__getitem__\<close>: a dictionary found at the path comes back wrapped in a new
  \<open>DottedDictWrapper\<close>; the model returns the \<open>PDict\<close> and the callers treat a \<open>PDict\<close>
  that comes from the store as that wrapper object.\<close>

definition ddw_getitem :: "pydict \<Rightarrow> pyval \<Rightarrow> exn + pyval" where
  "ddw_getitem d key =
     (case key of
        PStr s \<Rightarrow>
          (case ddw_find (split_on CHR ''.'' s) (PDict d) of
             Inl e \<Rightarrow> Inl KeyError
           | Inr v \<Rightarrow> Inr v)
      | _ \<Rightarrow> Inl KeyError)"

text \<open>\<open>__setitem__\<close>: the loop over \<open>keys[:-1]\<close> walks down by reference and the final
  assignment mutates the innermost dictionary; the model rebuilds the path. The test
  \<open>k not in v\<close> comes before \<open>isinstance(v, dict)\<close>, as in the source.\<close>

fun set_path :: "string list \<Rightarrow> pyval \<Rightarrow> pyval \<Rightarrow> exn + pyval" where
  "set_path [] x v = Inl IndexError"
| "set_path [k] x v = py_setitem v k x"
| "set_path (k # ks) x v =
     (case py_in (PStr k) v of
        Inl e \<Rightarrow> Inl e
      | Inr False \<Rightarrow>
          (case py_setitem v k (PDict []) of
             Inl e \<Rightarrow> Inl e
           | Inr v' \<Rightarrow>
               (case set_path ks x (PDict []) of
                  Inl e \<Rightarrow> Inl e
                | Inr c \<Rightarrow> py_setitem v' k c))
      | Inr True \<Rightarrow>
          (case v of
             PDict d \<Rightarrow>
               (case map_of d k of
                  None \<Rightarrow> Inl KeyError
                | Some c0 \<Rightarrow>
                    (case set_path ks x c0 of
                       Inl e \<Rightarrow> Inl e
                     | Inr c \<Rightarrow> Inr (PDict (AList.update k c d))))
           | _ \<Rightarrow> Inl (PyException [])))"

text \<open>\<open>key.split\<close> stands before the \<open>try\<close>: a key that is not a string raises
  \<open>AttributeError\<close>; every exception of the loop and of the final assignment is turned into
  \<open>KeyError\<close>.\<close>

definition ddw_setitem :: "pydict \<Rightarrow> pyval \<Rightarrow> pyval \<Rightarrow> exn + pydict" where
  "ddw_setitem d key x =
     (case key of
        PStr s \<Rightarrow>
          (case set_path (split_on CHR ''.'' s) x (PDict d) of
             Inr (PDict d') \<Rightarrow> Inr d'
           | _ \<Rightarrow> Inl KeyError)
      | _ \<Rightarrow> Inl AttributeError)"

text \<open>\<open>_walk(d, pref)\<close>: depth-first flattening in the dictionaries' own order. The
  prefix is tested for truth (\<open>if pref\<close>), so an empty prefix counts as no prefix.\<close>

definition walk_pref :: "string option \<Rightarrow> string \<Rightarrow> string" where
  "walk_pref pref k =
     (case pref of
        None \<Rightarrow> k
      | Some q \<Rightarrow> if q \<noteq> [] then q @ ''.'' @ k else k)"

fun ddw_walk :: "pydict \<Rightarrow> string option \<Rightarrow> (string \<times> pyval) list" where
  "ddw_walk [] pref = []"
| "ddw_walk ((k, v) # d) pref =
     (case v of
        PDict c \<Rightarrow> ddw_walk c (Some (walk_pref pref k))
      | _ \<Rightarrow> [(walk_pref pref k, v)]) @ ddw_walk d pref"

definition ddw_items :: "pydict \<Rightarrow> (string \<times> pyval) list" where
  "ddw_items d = ddw_walk d None"

definition ddw_keys :: "pydict \<Rightarrow> string list" where
  "ddw_keys d = map fst (ddw_walk d None)"

text \<open>\<open>get(key, default)\<close>: the result \<open>None\<close> stands for "the caller's default".\<close>

definition ddw_get :: "pydict \<Rightarrow> pyval \<Rightarrow> pyval option" where
  "ddw_get d key =
     (if ddw_contains d key
      then (case ddw_getitem d key of Inr v \<Rightarrow> Some v | Inl e \<Rightarrow> None)
      else None)"

section \<open>Python built-ins used by the interview module\<close>

text \<open>Exceptions propagate: the rest runs only on a result.\<close>

fun bind_exn :: "exn + 'a \<Rightarrow> ('a \<Rightarrow> exn + 'b) \<Rightarrow> exn + 'b" where
  "bind_exn (Inl e) f = Inl e"
| "bind_exn (Inr x) f = f x"

text \<open>\<open>bool(v)\<close>.\<close>

fun py_truthy :: "pyval \<Rightarrow> bool" where
  "py_truthy PNone = False"
| "py_truthy (PBool b) = b"
| "py_truthy (PInt n) = (n \<noteq> 0)"
| "py_truthy (PStr s) = (s \<noteq> [])"
| "py_truthy (PList xs) = (xs \<noteq> [])"
| "py_truthy (PDict d) = (d \<noteq> [])"

text \<open>Iteration (\<open>for v in c\<close>): a list gives its elements, a string its characters, a
  dictionary its keys.\<close>

fun py_iter :: "pyval \<Rightarrow> exn + pyval list" where
  "py_iter (PList xs) = Inr xs"
| "py_iter (PStr s) = Inr (map (\<lambda>c. PStr [c]) s)"
| "py_iter (PDict d) = Inr (map (\<lambda>p. PStr (fst p)) d)"
| "py_iter v = Inl TypeError"

text \<open>White space as \<open>str.split()\<close> sees it (the ASCII part): the six characters of
  C's \<open>isspace\<close> and the four separators \<open>0x1C\<close> to \<open>0x1F\<close>.\<close>

definition is_space :: "char \<Rightarrow> bool" where
  "is_space c = (c \<in> set [CHR 0x09, CHR 0x0A, CHR 0x0B, CHR 0x0C, CHR 0x0D,
                            CHR 0x1C, CHR 0x1D, CHR 0x1E, CHR 0x1F, CHR 0x20])"

text \<open>\<open>s.split()\<close>: the maximal runs of characters that are not white space.\<close>

fun split_ws :: "string \<Rightarrow> string list" where
  "split_ws [] = []"
| "split_ws (c # s) =
     (if is_space c then split_ws s
      else (case s of
              [] \<Rightarrow> [[c]]
            | d # t \<Rightarrow>
                if is_space d then [c] # split_ws s
                else (case split_ws s of
                        [] \<Rightarrow> [[c]]
                      | w # ws \<Rightarrow> (c # w) # ws)))"

text \<open>\<open>int(v)\<close>: an integer is itself, a boolean is 0 or 1, a string is stripped of white
  space and read as an optional sign and decimal digits, single underscores allowed between
  digits; anything else is a \<open>TypeError\<close>. On an ASCII string \<open>int\<close> strips only the six
  characters of C's \<open>isspace\<close>; the separators \<open>0x1C\<close> to \<open>0x1F\<close> make the literal
  invalid.\<close>

definition is_int_space :: "char \<Rightarrow> bool" where
  "is_int_space c = (c \<in> set [CHR 0x09, CHR 0x0A, CHR 0x0B, CHR 0x0C, CHR 0x0D, CHR 0x20])"

definition digit_val :: "char \<Rightarrow> nat option" where
  "digit_val c =
     map_of [(CHR ''0'', 0), (CHR ''1'', 1), (CHR ''2'', 2), (CHR ''3'', 3), (CHR ''4'', 4),
             (CHR ''5'', 5), (CHR ''6'', 6), (CHR ''7'', 7), (CHR ''8'', 8), (CHR ''9'', 9)] c"

fun digits_val :: "string \<Rightarrow> nat \<Rightarrow> nat option" where
  "digits_val [] acc = Some acc"
| "digits_val (c # s) acc =
     (if c = CHR ''_''
      then (case s of
              [] \<Rightarrow> None
            | d # t \<Rightarrow> if d = CHR ''_'' then None else digits_val s acc)
      else (case digit_val c of
              None \<Rightarrow> None
            | Some n \<Rightarrow> digits_val s (10 * acc + n)))"

definition nat_of_str :: "string \<Rightarrow> nat option" where
  "nat_of_str s =
     (case s of
        [] \<Rightarrow> None
      | c # t \<Rightarrow> if c = CHR ''_'' then None else digits_val s 0)"

definition strip :: "string \<Rightarrow> string" where
  "strip s = rev (dropWhile is_int_space (rev (dropWhile is_int_space s)))"

definition int_of_str :: "string \<Rightarrow> int option" where
  "int_of_str s =
     (case strip s of
        [] \<Rightarrow> None
      | c # t \<Rightarrow>
          if c = CHR ''-'' then map_option (\<lambda>n. - int n) (nat_of_str t)
          else if c = CHR ''+'' then map_option int (nat_of_str t)
          else map_option int (nat_of_str (c # t)))"

fun py_int :: "pyval \<Rightarrow> exn + int" where
  "py_int (PInt n) = Inr n"
| "py_int (PBool b) = Inr (if b then 1 else 0)"
| "py_int (PStr s) =
     (case int_of_str s of
        None \<Rightarrow> Inl (ValueError ''invalid literal for int()'')
      | Some n \<Rightarrow> Inr n)"
| "py_int v = Inl TypeError"

text \<open>\<open>str(v)\<close> as an f-string renders it. The \<open>repr\<close> of a list or dictionary is left to
  the parameter \<open>repr\<close>.\<close>

fun show_nat :: "nat \<Rightarrow> string" where
  "show_nat n =
     (if n < 10 then [''0123456789'' ! n]
      else show_nat (n div 10) @ [''0123456789'' ! (n mod 10)])"

definition show_int :: "int \<Rightarrow> string" where
  "show_int i = (if i < 0 then CHR ''-'' # show_nat (nat (- i)) else show_nat (nat i))"

fun py_str :: "(pyval \<Rightarrow> string) \<Rightarrow> pyval \<Rightarrow> string" where
  "py_str repr PNone = ''None''"
| "py_str repr (PBool b) = (if b then ''True'' else ''False'')"
| "py_str repr (PInt n) = show_int n"
| "py_str repr (PStr s) = s"
| "py_str repr v = repr v"

text \<open>\<open>a % b\<close> on integers: the result has the sign of \<open>b\<close>, as \<open>mod\<close> on \<open>int\<close> has;
  a zero divisor raises.\<close>

definition py_mod :: "int \<Rightarrow> int \<Rightarrow> exn + int" where
  "py_mod a b = (if b = 0 then Inl ZeroDivisionError else Inr (a mod b))"

text \<open>\<open>sorted(xs)\<close>: a stable sort by \<open><\<close>. Numbers (integers and booleans) compare with
  numbers and strings with strings; two values of different kinds, \<open>None\<close> and dictionaries
  do not compare. Lists of lists are not covered.\<close>

fun num_val :: "pyval \<Rightarrow> int option" where
  "num_val (PInt n) = Some n"
| "num_val (PBool b) = Some (if b then 1 else 0)"
| "num_val v = None"

fun str_val :: "pyval \<Rightarrow> string option" where
  "str_val (PStr s) = Some s"
| "str_val v = None"

fun is_list :: "pyval \<Rightarrow> bool" where
  "is_list (PList xs) = True"
| "is_list v = False"

definition py_sorted :: "pyval list \<Rightarrow> exn + pyval list" where
  "py_sorted xs =
     (if length xs \<le> 1 then Inr xs
      else if list_all (\<lambda>v. num_val v \<noteq> None) xs then Inr (sort_key (\<lambda>v. the (num_val v)) xs)
      else if list_all (\<lambda>v. str_val v \<noteq> None) xs then Inr (sort_key (\<lambda>v. the (str_val v)) xs)
      else if list_ex is_list xs then Inl Unmodelled
      else Inl TypeError)"

section \<open>External collaborators\<close>

text \<open>
  The file system, the YAML loader and the regular-expression engine are parameters:
  \<^item> \<open>read_file p\<close> is \<open>open(p).read()\<close>;
  \<^item> \<open>os_walk p\<close> is the first triple that \<open>os.walk(p)\<close> yields, as directory names and
    file names, or \<open>None\<close> when it yields nothing;
  \<^item> \<open>re_compile p\<close> is \<open>re.compile(p)\<close>; the compiled expression maps a subject \<open>v\<close> to
    whether \<open>cre.match(v)\<close> is a match;
  \<^item> \<open>yaml_load p\<close> is \<open>yaml.safe_load(open(p, "r"))\<close>;
  \<^item> \<open>path_exists p\<close> is \<open>os.path.exists(p)\<close>;
  \<^item> \<open>repr\<close> renders a list or dictionary inside an f-string;
  \<^item> \<open>home\<close> is \<open>Interview.home\<close>.
\<close>

record world =
  read_file :: "pyval \<Rightarrow> exn + string"
  os_walk :: "string \<Rightarrow> (string list \<times> string list) option"
  re_compile :: "pyval \<Rightarrow> exn + (pyval \<Rightarrow> exn + bool)"
  yaml_load :: "pyval \<Rightarrow> exn + pyval"
  path_exists :: "pyval \<Rightarrow> bool"
  repr :: "pyval \<Rightarrow> string"
  home :: "string option"

section \<open>Item model: class \<open>Item\<close> (interview.py)\<close>

text \<open>\<open>c.get(k, NoValue)\<close> is \<open>map_of c k\<close>: the result \<open>None\<close> stands for the sentinel class
  \<open>NoValue\<close>. \<open>c.get(k)\<close> is \<open>cfg_get c k\<close>, with Python's \<open>None\<close> for a missing key.\<close>

definition cfg_get :: "pydict \<Rightarrow> string \<Rightarrow> pyval" where
  "cfg_get c k = (case map_of c k of None \<Rightarrow> PNone | Some v \<Rightarrow> v)"

definition cfg_flag :: "pydict \<Rightarrow> string \<Rightarrow> bool" where
  "cfg_flag c k = (case map_of c k of None \<Rightarrow> False | Some v \<Rightarrow> py_truthy v)"

text \<open>The object that \<open>Interview.next\<close> returns. \<open>it_key\<close> is the constructor's \<open>key\<close>
  argument, \<open>None\<close> for \<open>NoValue\<close>.\<close>

record item =
  it_walkpath :: "nat list"
  it_key :: "pyval option"
  it_config :: pydict

text \<open>The runtime \<open>values\<close> of \<open>__init__\<close>, step by step. Each step returns the updated
  configuration dictionary, which the constructor mutates in place.\<close>

definition init_default :: "world \<Rightarrow> pydict \<Rightarrow> exn + pydict" where
  "init_default w c =
     (case map_of c ''default_from_file'' of
        None \<Rightarrow> Inr c
      | Some p \<Rightarrow>
          bind_exn (read_file w p) (\<lambda>s. Inr (AList.update ''default'' (PStr s) c)))"

definition init_values_dir :: "world \<Rightarrow> pydict \<Rightarrow> exn + pydict" where
  "init_values_dir w c =
     (case map_of c ''values_from_directory'' of
        None \<Rightarrow> Inr c
      | Some (PStr s) \<Rightarrow>
          (case split1 CHR '':'' s of
             [namekind, path] \<Rightarrow>
               (case os_walk w path of
                  None \<Rightarrow> Inl UnboundLocalError
                | Some (dirnames, filenames) \<Rightarrow>
                    if namekind = ''dir''
                    then Inr (AList.update ''values'' (PList (map PStr dirnames)) c)
                    else if namekind = ''file''
                    then Inr (AList.update ''values'' (PList (map PStr filenames)) c)
                    else if namekind = ''dir+file''
                    then Inr (AList.update ''values'' (PList (map PStr (dirnames @ filenames))) c)
                    else Inl UnboundLocalError)
           | _ \<Rightarrow> Inl (ValueError ''not enough values to unpack''))
      | Some v \<Rightarrow> Inl AttributeError)"

definition init_values_file :: "world \<Rightarrow> pydict \<Rightarrow> exn + pydict" where
  "init_values_file w c =
     (case map_of c ''values_from_file'' of
        None \<Rightarrow> Inr c
      | Some p \<Rightarrow>
          bind_exn (read_file w p)
            (\<lambda>s. Inr (AList.update ''values''
                        (PList (map PStr (filter (\<lambda>v. v \<noteq> []) (split_on CHR 0x0A s)))) c)))"

text \<open>A comprehension with a test that may raise: \<open>[v for v in xs if f(v)]\<close>.\<close>

fun filter_exn :: "('a \<Rightarrow> exn + bool) \<Rightarrow> 'a list \<Rightarrow> exn + 'a list" where
  "filter_exn f [] = Inr []"
| "filter_exn f (x # xs) =
     bind_exn (f x) (\<lambda>b. bind_exn (filter_exn f xs) (\<lambda>r. Inr (if b then x # r else r)))"

text \<open>A comprehension \<open>[f(v) for v in xs]\<close>, and a loop \<open>for v in xs: f(v)\<close> that only
  raises or passes.\<close>

fun map_exn :: "('a \<Rightarrow> exn + 'b) \<Rightarrow> 'a list \<Rightarrow> exn + 'b list" where
  "map_exn f [] = Inr []"
| "map_exn f (x # xs) = bind_exn (f x) (\<lambda>y. bind_exn (map_exn f xs) (\<lambda>r. Inr (y # r)))"

fun each_exn :: "('a \<Rightarrow> exn + unit) \<Rightarrow> 'a list \<Rightarrow> exn + unit" where
  "each_exn f [] = Inr ()"
| "each_exn f (x # xs) = bind_exn (f x) (\<lambda>u. each_exn f xs)"

definition init_values_regexp :: "world \<Rightarrow> pydict \<Rightarrow> exn + pydict" where
  "init_values_regexp w c =
     (case map_of c ''values_regexp'' of
        None \<Rightarrow> Inr c
      | Some p \<Rightarrow>
          bind_exn (re_compile w p)
            (\<lambda>cre. case map_of c ''values'' of
                     None \<Rightarrow> Inr c
                   | Some vs \<Rightarrow>
                       bind_exn (py_iter vs)
                         (\<lambda>xs. bind_exn (filter_exn cre xs)
                            (\<lambda>ys. Inr (AList.update ''values'' (PList ys) c)))))"

text \<open>Conversion of the values for the types \<open>int\<close> and \<open>float\<close>. \<open>config["type"]\<close> raises
  \<open>KeyError\<close> when the node has no \<open>type\<close>. The conversion to \<open>float\<close> is outside the model.\<close>

definition init_values_convert :: "pydict \<Rightarrow> exn + pydict" where
  "init_values_convert c =
     (case map_of c ''type'' of
        None \<Rightarrow> Inl KeyError
      | Some typ \<Rightarrow>
          if py_eq typ (PStr ''int'')
          then bind_exn (py_iter (cfg_get c ''values''))
                 (\<lambda>xs. bind_exn (map_exn py_int xs)
                    (\<lambda>ns. Inr (AList.update ''values'' (PList (map PInt ns)) c)))
          else if py_eq typ (PStr ''float'') then Inl Unmodelled
          else Inr c)"

text \<open>\<open>values_sort\<close>: \<open>asc\<close> calls \<open>sorted\<close>; \<open>desc\<close> calls \<open>reverse\<close>, a name that the
  module neither defines nor imports, so the call raises \<open>NameError\<close>.\<close>

definition init_values_sort :: "pydict \<Rightarrow> exn + pydict" where
  "init_values_sort c =
     (case map_of c ''values_sort'' of
        None \<Rightarrow> Inr c
      | Some order \<Rightarrow>
          if py_eq order (PStr ''asc'')
          then bind_exn (py_iter (cfg_get c ''values''))
                 (\<lambda>xs. bind_exn (py_sorted xs)
                    (\<lambda>ys. Inr (AList.update ''values'' (PList ys) c)))
          else if py_eq order (PStr ''desc'') then Inl NameError
          else Inr c)"

definition init_values_process :: "pydict \<Rightarrow> exn + pydict" where
  "init_values_process c =
     (case map_of c ''values'' of
        None \<Rightarrow> Inr c
      | Some vs \<Rightarrow> bind_exn (init_values_convert c) init_values_sort)"

text \<open>\<open>Item.__init__\<close>: the configuration after the constructor has run.\<close>

definition Item_init :: "world \<Rightarrow> pydict \<Rightarrow> exn + pydict" where
  "Item_init w config =
     bind_exn (init_default w config)
       (\<lambda>c1. bind_exn (init_values_dir w c1)
          (\<lambda>c2. bind_exn (init_values_file w c2)
             (\<lambda>c3. bind_exn (init_values_regexp w c3) init_values_process)))"

text \<open>\<open>settings.get(key, d)\<close> followed by \<open>int(...)\<close>: a mapping found at the key comes back
  as a wrapper object, which \<open>int\<close> rejects.\<close>

definition get_int :: "pydict \<Rightarrow> pyval \<Rightarrow> int \<Rightarrow> exn + int" where
  "get_int settings k dflt =
     (case ddw_get settings k of
        None \<Rightarrow> Inr dflt
      | Some (PDict m) \<Rightarrow> Inl TypeError
      | Some v \<Rightarrow> py_int v)"

text \<open>\<open>Item.get_fqkey(key=None)\<close>.\<close>

definition Item_get_fqkey :: "world \<Rightarrow> pydict \<Rightarrow> pydict \<Rightarrow> pyval \<Rightarrow> exn + pyval" where
  "Item_get_fqkey w settings config key0 =
     (let section = map_of config ''section'';
          key = (if key0 = PNone then cfg_get config ''key'' else key0)
      in bind_exn (py_in (PStr ''.'') key)
           (\<lambda>dotted.
              let key1 = (if \<not> dotted
                          then (case section of
                                  None \<Rightarrow> key
                                | Some s \<Rightarrow> PStr (py_str (repr w) s @ ''.'' @ py_str (repr w) key))
                          else key)
              in (case map_of config ''parameterize'' of
                    None \<Rightarrow> Inr key1
                  | Some counter_key \<Rightarrow>
                      bind_exn (get_int settings counter_key 0)
                        (\<lambda>count. Inr (PStr (py_str (repr w) key1 @ ''.'' @ show_int count))))))"

text \<open>The conversion of \<open>Item.set\<close>. The first chain tests \<open>bool\<close> and \<open>csv\<close>, the second
  (an \<open>if\<close>, not an \<open>elif\<close>) \<open>float\<close>, \<open>int\<close>, \<open>str\<close> and \<open>ssv\<close>.\<close>

definition convert_value :: "pyval \<Rightarrow> pyval \<Rightarrow> exn + pyval" where
  "convert_value typ v =
     (if py_eq typ (PStr ''bool'') then Inr (PBool (py_truthy v))
      else if py_eq typ (PStr ''csv'')
      then (case v of PStr s \<Rightarrow> Inr (PList (map PStr (split_on CHR '','' s))) | _ \<Rightarrow> Inl AttributeError)
      else if py_eq typ (PStr ''float'') then Inl Unmodelled
      else if py_eq typ (PStr ''int'') then bind_exn (py_int v) (\<lambda>n. Inr (PInt n))
      else if py_eq typ (PStr ''str'') then Inr v
      else if py_eq typ (PStr ''ssv'')
      then (case v of PStr s \<Rightarrow> Inr (PList (map PStr (split_ws s))) | _ \<Rightarrow> Inl AttributeError)
      else Inr v)"

text \<open>The range check. The bounds are split off the string: \<open>lo, hi = rng.split("-", 1)\<close>,
  then \<open>hi, step = hi.split(":", 1)\<close> when \<open>hi\<close> contains a colon, else \<open>step = 1\<close>. For the
  type \<open>int\<close> the three are converted with \<open>int\<close> (an empty step is 1). For any other
  type the bounds stay strings: an element that is a string is compared with them and then
  hits the subtraction of two strings; any other element does not compare with a string.\<close>

definition check_int_range :: "int \<Rightarrow> int \<Rightarrow> int \<Rightarrow> pyval \<Rightarrow> exn + unit" where
  "check_int_range lo hi step v =
     (case num_val v of
        None \<Rightarrow> Inl TypeError
      | Some n \<Rightarrow>
          if n < lo \<or> n > hi then Inl (ValueError ''bad value'')
          else bind_exn (py_mod (n - lo) step)
                 (\<lambda>r. if r \<noteq> 0 then Inl (ValueError ''bad value'') else Inr ()))"

definition check_str_range :: "string \<Rightarrow> string \<Rightarrow> pyval \<Rightarrow> exn + unit" where
  "check_str_range lo hi v =
     (case v of
        PStr s \<Rightarrow> if s < lo \<or> s > hi then Inl (ValueError ''bad value'') else Inl TypeError
      | _ \<Rightarrow> Inl TypeError)"

definition check_range :: "pyval \<Rightarrow> pyval \<Rightarrow> pyval list \<Rightarrow> exn + unit" where
  "check_range typ rng xvalues =
     (case rng of
        PStr r \<Rightarrow>
          (case split1 CHR ''-'' r of
             [lo, hi0] \<Rightarrow>
               (let hi = (if CHR '':'' \<in> set hi0 then hd (split1 CHR '':'' hi0) else hi0);
                    step = (if CHR '':'' \<in> set hi0 then PStr (hd (tl (split1 CHR '':'' hi0))) else PInt 1)
                in if py_eq typ (PStr ''int'')
                   then bind_exn (py_int (PStr lo))
                          (\<lambda>l. bind_exn (py_int (PStr hi))
                             (\<lambda>h. bind_exn (if step \<noteq> PStr [] then py_int step else Inr 1)
                                (\<lambda>st. each_exn (check_int_range l h st) xvalues)))
                   else if py_eq typ (PStr ''float'') then Inl Unmodelled
                   else each_exn (check_str_range lo hi) xvalues)
           | _ \<Rightarrow> Inl (ValueError ''not enough values to unpack''))
      | _ \<Rightarrow> Inl AttributeError)"

text \<open>The validation of \<open>Item.set\<close>: one \<open>if\<close>/\<open>elif\<close> chain over \<open>required\<close>, \<open>values\<close>,
  \<open>regexp\<close> and \<open>range\<close>.\<close>

definition validate :: "world \<Rightarrow> pydict \<Rightarrow> pyval \<Rightarrow> pyval list \<Rightarrow> exn + unit" where
  "validate w config typ xvalues =
     (if cfg_flag config ''required'' \<and> xvalues = [] then Inl (ValueError ''required value'')
      else (case map_of config ''values'' of
              Some vals \<Rightarrow>
                each_exn (\<lambda>v. bind_exn (py_in v vals)
                                (\<lambda>b. if \<not> b then Inl (ValueError ''bad value'') else Inr ())) xvalues
            | None \<Rightarrow>
                (case map_of config ''regexp'' of
                   Some regexp \<Rightarrow>
                     bind_exn (re_compile w regexp)
                       (\<lambda>cre. each_exn (\<lambda>v. bind_exn (cre v)
                                 (\<lambda>b. if \<not> b then Inl (ValueError ''bad value'') else Inr ())) xvalues)
                 | None \<Rightarrow>
                     (case map_of config ''range'' of
                        Some rng \<Rightarrow> check_range typ rng xvalues
                      | None \<Rightarrow> Inr ()))))"

text \<open>\<open>Item.set(value)\<close>: the settings after the commit, or the exception. The value is
  stored under \<open>self.key\<close>, the key the constructor was given.\<close>

definition Item_set :: "world \<Rightarrow> pydict \<Rightarrow> item \<Rightarrow> pyval \<Rightarrow> exn + pydict" where
  "Item_set w settings it value0 =
     (let config = it_config it in
      case map_of config ''type'' of
        None \<Rightarrow> Inl KeyError
      | Some typ \<Rightarrow>
          if py_eq (cfg_get config ''kind'') (PStr ''notice'') \<and> map_of config ''default'' = None
          then Inl (BadItem ''notice requires a default'')
          else
            (let value1 = (if py_eq (cfg_get config ''kind'') (PStr ''notice'') then PNone else value0);
                 value2 = (case map_of config ''default'' of
                             None \<Rightarrow> value1
                           | Some dflt \<Rightarrow>
                               if py_eq value1 PNone \<or> py_eq value1 (PStr []) then dflt else value1)
             in bind_exn (convert_value typ value2)
                  (\<lambda>value.
                     bind_exn (case value of
                                 PList xs \<Rightarrow>
                                   if \<not> cfg_flag config ''multivalue''
                                   then Inl (ValueError ''bad value'') else Inr xs
                               | _ \<Rightarrow> Inr [value])
                       (\<lambda>xvalues.
                          bind_exn (validate w config typ xvalues)
                            (\<lambda>u. case it_key it of
                                   None \<Rightarrow> Inl AttributeError
                                 | Some key \<Rightarrow> ddw_setitem settings key value)))))"

section \<open>Traversal engine: \<open>Interview.next\<close> (interview.py)\<close>

text \<open>\<open>Interview._load(path)\<close>: a path without a slash is taken relative to \<open>home\<close>.\<close>

definition load_doc :: "world \<Rightarrow> pyval \<Rightarrow> exn + pyval" where
  "load_doc w path =
     bind_exn (py_in (PStr ''/'') path)
       (\<lambda>slash. case home w of
                  Some h \<Rightarrow>
                    if \<not> slash then yaml_load w (PStr (h @ ''/'' @ py_str (repr w) path))
                    else yaml_load w path
                | None \<Rightarrow> yaml_load w path)"

text \<open>The function \<open>get_fqkey(item_config, key=None)\<close> that \<open>Interview.next\<close> defines
  locally. It reads \<open>self.settings\<close> of the interview.\<close>

definition next_get_fqkey :: "world \<Rightarrow> pydict \<Rightarrow> pydict \<Rightarrow> pyval \<Rightarrow> exn + pyval" where
  "next_get_fqkey w settings item_config key0 =
     (let section = map_of item_config ''section'';
          key = (if key0 = PNone then cfg_get item_config ''key'' else key0)
      in bind_exn (py_in (PStr ''.'') key)
           (\<lambda>dotted.
              let key1 = (if \<not> dotted
                          then (case section of
                                  None \<Rightarrow> key
                                | Some s \<Rightarrow> PStr (py_str (repr w) s @ ''.'' @ py_str (repr w) key))
                          else key)
              in (case map_of item_config ''parameterize'' of
                    None \<Rightarrow> Inr key1
                  | Some counter_key \<Rightarrow>
                      bind_exn (get_int settings counter_key 0)
                        (\<lambda>count. Inr (PStr (py_str (repr w) key1 @ ''.'' @ show_int count))))))"

text \<open>\<open>item_cls_lookup.get(kind)\<close>: whether a class is registered for the kind. A list or
  a dictionary is not hashable.\<close>

definition item_kinds :: "string list" where
  "item_kinds = [''branch'', ''include'', ''notice'', ''question'', ''reset'', ''set'', ''update'']"

fun item_cls_lookup :: "pyval option \<Rightarrow> exn + string option" where
  "item_cls_lookup (Some (PStr s)) = Inr (if s \<in> set item_kinds then Some s else None)"
| "item_cls_lookup (Some (PList xs)) = Inl TypeError"
| "item_cls_lookup (Some (PDict d)) = Inl TypeError"
| "item_cls_lookup k = Inr None"

text \<open>\<open>del settings[key]\<close>: \<open>DottedDictWrapper\<close> defines \<open>__contains__\<close>, \<open>__getitem__\<close> and
  \<open>__setitem__\<close> but no \<open>__delitem__\<close>, so the statement raises \<open>AttributeError\<close> and the store
  stays as it is.\<close>

definition ddw_delitem :: "pydict \<Rightarrow> pyval \<Rightarrow> exn + pydict" where
  "ddw_delitem d key = Inl AttributeError"

text \<open>Membership of a value read with \<open>settings.get(key, NoValue)\<close>. The sentinel class
  and the wrapper object that stands for a stored mapping are equal to no element; a string
  accepts only a string on the left.\<close>

fun opaque_in :: "pyval \<Rightarrow> exn + bool" where
  "opaque_in (PList ys) = Inr False"
| "opaque_in (PDict d) = Inr False"
| "opaque_in c = Inl TypeError"

fun fetched_in :: "pyval option \<Rightarrow> pyval \<Rightarrow> exn + bool" where
  "fetched_in None c = opaque_in c"
| "fetched_in (Some (PDict m)) c = opaque_in c"
| "fetched_in (Some v) c = py_in v c"

text \<open>The special case for \<open>branch\<close>: the result \<open>True\<close> is the \<open>continue\<close> of "no match".\<close>

definition branch_no_match :: "world \<Rightarrow> pydict \<Rightarrow> pydict \<Rightarrow> exn + bool" where
  "branch_no_match w settings config =
     (case map_of config ''match_key'' of
        None \<Rightarrow> Inr False
      | Some mk \<Rightarrow>
          bind_exn (Item_get_fqkey w settings config mk)
            (\<lambda>match_key.
               let match_value = ddw_get settings match_key in
               bind_exn (case map_of config ''match_values'' of
                           None \<Rightarrow> Inr True
                         | Some vs \<Rightarrow> bind_exn (fetched_in match_value vs) (\<lambda>b. Inr (\<not> b)))
                 (\<lambda>a. if \<not> a then Inr False
                      else (case map_of config ''match_not_values'' of
                              None \<Rightarrow> Inr True
                            | Some vs \<Rightarrow> fetched_in match_value vs))))"

text \<open>The special case for \<open>reset\<close>: the two deletion loops. The second runs over
  \<open>list(settings.keys())\<close>, the keys as they are before the loop.\<close>

fun reset_keys_loop :: "world \<Rightarrow> pydict \<Rightarrow> pyval list \<Rightarrow> pydict \<Rightarrow> exn + pydict" where
  "reset_keys_loop w config [] settings = Inr settings"
| "reset_keys_loop w config (reset_key # rest) settings =
     bind_exn (Item_get_fqkey w settings config reset_key)
       (\<lambda>fq. if ddw_contains settings fq
             then bind_exn (ddw_delitem settings fq) (reset_keys_loop w config rest)
             else reset_keys_loop w config rest settings)"

fun reset_regexp_loop :: "(pyval \<Rightarrow> exn + bool) \<Rightarrow> string list \<Rightarrow> pydict \<Rightarrow> exn + pydict" where
  "reset_regexp_loop cre [] settings = Inr settings"
| "reset_regexp_loop cre (k # rest) settings =
     bind_exn (cre (PStr k))
       (\<lambda>m. if m
            then bind_exn (ddw_delitem settings (PStr k)) (reset_regexp_loop cre rest)
            else reset_regexp_loop cre rest settings)"

definition reset_deletions :: "world \<Rightarrow> pydict \<Rightarrow> pydict \<Rightarrow> exn + pydict" where
  "reset_deletions w config settings =
     (case map_of config ''reset_keys'' of
        Some reset_keys \<Rightarrow>
          bind_exn (py_iter reset_keys) (\<lambda>ks. reset_keys_loop w config ks settings)
      | None \<Rightarrow>
          (case map_of config ''reset_key_regexp'' of
             Some reset_key_regexp \<Rightarrow>
               bind_exn (re_compile w reset_key_regexp)
                 (\<lambda>cre. reset_regexp_loop cre (ddw_keys settings) settings)
           | None \<Rightarrow> Inl (ValueError ''bad item'')))"

text \<open>What one pass of the loop body does with a node, short of the recursion: go on with
  the next sibling, raise, return an item, or walk the node's subtree.\<close>

datatype step = Next | Raise exn | Found item | Enter "pyval list"

text \<open>"set value as/if needed": the part under \<open>if "key" in item_config\<close>, for the kinds
  \<open>branch\<close>, \<open>notice\<close>, \<open>question\<close>, \<open>set\<close> and \<open>reset\<close>.\<close>

definition set_if_needed :: "world \<Rightarrow> string \<Rightarrow> item \<Rightarrow> pydict \<Rightarrow> step \<times> pydict" where
  "set_if_needed w kind it settings =
     (let config = it_config it in
      case map_of config ''key'' of
        None \<Rightarrow> (Next, settings)
      | Some k \<Rightarrow>
          (case Item_get_fqkey w settings config PNone of
             Inl e \<Rightarrow> (Raise e, settings)
           | Inr key \<Rightarrow>
               if ddw_get settings key = None \<or> cfg_flag config ''force''
               then (if kind \<in> set [''branch'', ''reset'', ''set'']
                     then (case Item_set w settings it (cfg_get config ''value'') of
                             Inl e \<Rightarrow> (Raise e, settings)
                           | Inr settings' \<Rightarrow>
                               if kind \<in> set [''reset'', ''set''] then (Raise RetryWalk, settings')
                               else (Next, settings'))
                     else if kind \<in> set [''notice'', ''question''] then (Found it, settings)
                     else (Next, settings))
               else (Next, settings)))"

text \<open>"handle branch match now": \<open>if interview: item = walk(interview, walkpath + [i])\<close>.
  A missing \<open>interview\<close> is the class \<open>NoValue\<close>, which is true and not iterable; a string
  or a dictionary iterates over strings, which have no \<open>get\<close>.\<close>

definition enter_branch :: "pydict \<Rightarrow> step" where
  "enter_branch config =
     (case map_of config ''interview'' of
        None \<Rightarrow> Raise TypeError
      | Some (PList sub) \<Rightarrow> if sub \<noteq> [] then Enter sub else Next
      | Some (PStr s) \<Rightarrow> if s \<noteq> [] then Raise AttributeError else Next
      | Some (PDict d) \<Rightarrow> if d \<noteq> [] then Raise AttributeError else Next
      | Some v \<Rightarrow> if py_truthy v then Raise TypeError else Next)"

definition visit_setter :: "world \<Rightarrow> string \<Rightarrow> item \<Rightarrow> pydict \<Rightarrow> step \<times> pydict" where
  "visit_setter w kind it settings =
     (let config = it_config it in
      case (if kind = ''branch''
            then bind_exn (branch_no_match w settings config) (\<lambda>b. Inr (b, settings))
            else if kind = ''reset''
            then bind_exn (reset_deletions w config settings) (\<lambda>s. Inr (False, s))
            else Inr (False, settings)) of
        Inl e \<Rightarrow> (Raise e, settings)
      | Inr (True, settings1) \<Rightarrow> (Next, settings1)
      | Inr (False, settings1) \<Rightarrow>
          (case set_if_needed w kind it settings1 of
             (Next, settings2) \<Rightarrow>
               (if kind = ''branch'' then enter_branch config else Next, settings2)
           | r \<Rightarrow> r))"

text \<open>\<open>include\<close>: the node's dictionary is cleared and refilled as a branch, then the walk
  restarts. \<open>kind\<close> and \<open>name\<close> are set before the file is loaded: when \<open>_load\<close> raises,
  the node is left with these two entries.\<close>

definition visit_include :: "world \<Rightarrow> pydict \<Rightarrow> step \<times> pydict" where
  "visit_include w config =
     (case map_of config ''path'' of
        None \<Rightarrow> (Next, config)
      | Some path \<Rightarrow>
          (let cleared = [(''kind'', PStr ''branch''),
                          (''name'', PStr (''included-'' @ py_str (repr w) path))]
           in case load_doc w path of
                Inl e \<Rightarrow> (Raise e, cleared)
              | Inr doc \<Rightarrow> (Raise RetryWalk, cleared @ [(''interview'', doc)])))"

text \<open>\<open>update\<close>: add the node's \<open>value\<close> (default 1) to the setting (default 0) and commit
  the sum through \<open>Item.set\<close>; the loop goes on with the next sibling.\<close>

definition visit_update :: "world \<Rightarrow> item \<Rightarrow> pydict \<Rightarrow> step \<times> pydict" where
  "visit_update w it settings =
     (let config = it_config it;
          key = cfg_get config ''key''
      in case bind_exn (py_int (case map_of config ''value'' of None \<Rightarrow> PInt 1 | Some v \<Rightarrow> v))
                (\<lambda>value. bind_exn (get_int settings key 0)
                   (\<lambda>count. Item_set w settings it (PInt (count + value)))) of
           Inl e \<Rightarrow> (Raise e, settings)
         | Inr settings' \<Rightarrow> (Next, settings'))"

text \<open>The body of the loop of \<open>walk\<close> for one node: the step, the node after the in-place
  changes, and the settings. An exception other than \<open>RetryWalk\<close> ends the session; when
  the constructor raises, the node returned with the exception does not record the fields
  the constructor had set before.\<close>

definition visit :: "world \<Rightarrow> nat list \<Rightarrow> pyval \<Rightarrow> pydict \<Rightarrow> step \<times> pyval \<times> pydict" where
  "visit w walkpath node settings =
     (case node of
        PDict item_config \<Rightarrow>
          if cfg_flag item_config ''disabled'' then (Next, node, settings)
          else
            (case item_cls_lookup (map_of item_config ''kind'') of
               Inl e \<Rightarrow> (Raise e, node, settings)
             | Inr None \<Rightarrow> (Raise (PyException ''unknown kind''), node, settings)
             | Inr (Some kind) \<Rightarrow>
                 (case Item_init w item_config of
                    Inl e \<Rightarrow> (Raise e, node, settings)
                  | Inr config \<Rightarrow>
                      (let it = \<lparr>it_walkpath = walkpath,
                                 it_key = map_of item_config ''key'',
                                 it_config = config\<rparr>
                       in if kind \<in> set [''branch'', ''notice'', ''question'', ''set'', ''reset'']
                          then (case visit_setter w kind it settings of
                                  (s, settings') \<Rightarrow> (s, PDict config, settings'))
                          else if kind = ''include''
                          then (case visit_include w config of
                                  (s, config') \<Rightarrow> (s, PDict config', settings))
                          else if kind = ''update''
                          then (case visit_update w it settings of
                                  (s, settings') \<Rightarrow> (s, PDict config, settings'))
                          else (Raise (PyException ''invalid item''), PDict config, settings))))
      | _ \<Rightarrow> (Raise AttributeError, node, settings))"

text \<open>The subtree of a branch is walked in place; the model writes it back.\<close>

fun put_interview :: "pyval \<Rightarrow> pyval list \<Rightarrow> pyval" where
  "put_interview (PDict c) sub = PDict (AList.update ''interview'' (PList sub) c)"
| "put_interview v sub = v"

text \<open>Termination of \<open>walk\<close>: the only subtree that a step enters is the list stored
  under \<open>interview\<close> in the node itself, which the constructor leaves alone.\<close>

lemma update_other: "k \<noteq> k' \<Longrightarrow> map_of (AList.update k v c) k' = map_of c k'"
  by (simp add: AList.update_conv')

lemma bind_exn_Inr: "bind_exn r f = Inr y \<Longrightarrow> \<exists>x. r = Inr x \<and> f x = Inr y"
  by (cases r) auto

lemma init_default_interview:
  "init_default w c = Inr c' \<Longrightarrow> map_of c' ''interview'' = map_of c ''interview''"
  by (auto simp: init_default_def update_other split: option.splits dest!: bind_exn_Inr)

lemma init_values_dir_interview:
  "init_values_dir w c = Inr c' \<Longrightarrow> map_of c' ''interview'' = map_of c ''interview''"
  by (auto simp: init_values_dir_def update_other split: option.splits pyval.splits list.splits if_splits)

lemma init_values_file_interview:
  "init_values_file w c = Inr c' \<Longrightarrow> map_of c' ''interview'' = map_of c ''interview''"
  by (auto simp: init_values_file_def update_other split: option.splits dest!: bind_exn_Inr)

lemma init_values_regexp_interview:
  "init_values_regexp w c = Inr c' \<Longrightarrow> map_of c' ''interview'' = map_of c ''interview''"
  by (auto simp: init_values_regexp_def update_other split: option.splits dest!: bind_exn_Inr)

lemma init_values_convert_interview:
  "init_values_convert c = Inr c' \<Longrightarrow> map_of c' ''interview'' = map_of c ''interview''"
  by (auto simp: init_values_convert_def update_other split: option.splits if_splits dest!: bind_exn_Inr)

lemma init_values_sort_interview:
  "init_values_sort c = Inr c' \<Longrightarrow> map_of c' ''interview'' = map_of c ''interview''"
  by (auto simp: init_values_sort_def update_other split: option.splits if_splits dest!: bind_exn_Inr)

lemma init_values_process_interview:
  "init_values_process c = Inr c' \<Longrightarrow> map_of c' ''interview'' = map_of c ''interview''"
  by (auto simp: init_values_process_def init_values_convert_interview init_values_sort_interview
      split: option.splits dest!: bind_exn_Inr)

lemma Item_init_interview:
  "Item_init w c = Inr c' \<Longrightarrow> map_of c' ''interview'' = map_of c ''interview''"
  unfolding Item_init_def
  by (auto simp: init_default_interview init_values_dir_interview init_values_file_interview
        init_values_regexp_interview init_values_process_interview dest!: bind_exn_Inr)

lemma enter_branch_Enter: "enter_branch c = Enter sub \<Longrightarrow> map_of c ''interview'' = Some (PList sub)"
  by (auto simp: enter_branch_def split: option.splits pyval.splits if_splits)

lemma set_if_needed_not_Enter: "set_if_needed w kind it s \<noteq> (Enter sub, s')"
  by (auto simp: set_if_needed_def Let_def split: option.splits sum.splits if_splits)

lemma visit_setter_Enter:
  "visit_setter w kind it s = (Enter sub, s') \<Longrightarrow> map_of (it_config it) ''interview'' = Some (PList sub)"
  unfolding visit_setter_def Let_def
  by (auto simp: set_if_needed_not_Enter split: sum.splits prod.splits bool.splits step.splits if_splits dest: enter_branch_Enter)

lemma visit_Enter:
  "visit w wp node s = (Enter sub, node', s') \<Longrightarrow>
   \<exists>c. node = PDict c \<and> map_of c ''interview'' = Some (PList sub)"
  unfolding visit_def Let_def
  by (auto simp: visit_include_def visit_update_def Let_def
      split: pyval.splits sum.splits option.splits prod.splits if_splits
      dest!: visit_setter_Enter Item_init_interview)

lemma map_of_size: "map_of c k = Some v \<Longrightarrow> size v < Suc (size_list (size_prod (\<lambda>_. 0) size) c)"
  by (induction c) (auto split: if_splits)

lemma visit_Enter_size:
  "visit w wp node s = (Enter sub, node', s') \<Longrightarrow> size_list size sub < size node"
  by (auto dest!: visit_Enter map_of_size)

text \<open>\<open>walk(config, walkpath)\<close>: the loop over the nodes with their indices. The result
  is the raised exception, the returned item or \<open>None\<close>, together with the document and
  the settings after the in-place changes. After a subtree returned \<open>None\<close> the loop goes on
  (\<open>continue\<close>); an item found below is returned at once.\<close>

function walk ::
  "world \<Rightarrow> pyval list \<Rightarrow> nat list \<Rightarrow> nat \<Rightarrow> pydict \<Rightarrow> (exn + item option) \<times> pyval list \<times> pydict"
where
  "walk w [] walkpath i settings = (Inr None, [], settings)"
| "walk w (node # rest) walkpath i settings =
     (case visit w walkpath node settings of
        (Next, node', settings') \<Rightarrow>
          (case walk w rest walkpath (Suc i) settings' of
             (r, rest', settings'') \<Rightarrow> (r, node' # rest', settings''))
      | (Raise e, node', settings') \<Rightarrow> (Inl e, node' # rest, settings')
      | (Found it, node', settings') \<Rightarrow> (Inr (Some it), node' # rest, settings')
      | (Enter sub, node', settings') \<Rightarrow>
          (case walk w sub (walkpath @ [i]) 0 settings' of
             (Inr None, sub', settings'') \<Rightarrow>
               (case walk w rest walkpath (Suc i) settings'' of
                  (r, rest', settings3) \<Rightarrow> (r, put_interview node' sub' # rest', settings3))
           | (r, sub', settings'') \<Rightarrow> (r, put_interview node' sub' # rest, settings'')))"
  by pat_completeness auto
termination
proof (relation "measure (\<lambda>(w, config, walkpath, i, settings). size_list size config)")
  show "wf (measure (\<lambda>(w, config, walkpath, i, settings). size_list size config))" by simp
qed (auto dest!: visit_Enter_size[OF sym])

text \<open>\<open>Interview.next()\<close>: \<open>while True\<close> around \<open>walk(config, [])\<close>, which runs again on
  every \<open>RetryWalk\<close>. The first argument bounds the number of walks; \<open>None\<close> means that
  the bound was reached.\<close>

fun next_item ::
  "nat \<Rightarrow> world \<Rightarrow> pyval list \<Rightarrow> pydict \<Rightarrow> ((exn + item option) \<times> pyval list \<times> pydict) option"
where
  "next_item 0 w config settings = None"
| "next_item (Suc n) w config settings =
     (case walk w config [] 0 settings of
        (Inl RetryWalk, config', settings') \<Rightarrow> next_item n w config' settings'
      | r \<Rightarrow> Some r)"

section \<open>Orchestrator: \<open>Interview.check\<close> (interview.py)\<close>

text \<open>The replacement of an \<open>include\<close> node inside the local function \<open>walk\<close> of
  \<open>check\<close>.\<close>

definition check_include :: "world \<Rightarrow> pydict \<Rightarrow> exn + pydict" where
  "check_include w item_config =
     (case map_of item_config ''path'' of
        None \<Rightarrow> Inl (BadItem ''path missing for include item'')
      | Some path \<Rightarrow>
          if \<not> path_exists w path then Inl (BadItem ''file not found for include item'')
          else bind_exn (load_doc w path)
                 (\<lambda>doc. Inr [(''kind'', PStr ''branch''),
                             (''name'', PStr (''included-'' @ py_str (repr w) path)),
                             (''interview'', doc)]))"

text \<open>
  The body of the loop of that local function for one node. The variable \<open>kind\<close> is read
  once, before an include is replaced. For a \<open>branch\<close> the function calls itself on the
  node's own dictionary with \<open>walkpath + [i]\<close>: with the default \<open>walkpath=None\<close> the sum
  raises \<open>TypeError\<close>; otherwise the call iterates over the keys of the dictionary, which are
  strings and have no \<open>get\<close> (the dictionary holds at least the key \<open>kind\<close>).
\<close>

definition check_node :: "world \<Rightarrow> nat list option \<Rightarrow> pyval \<Rightarrow> (exn + unit) \<times> pyval" where
  "check_node w walkpath node =
     (case node of
        PDict item_config \<Rightarrow>
          (case map_of item_config ''kind'' of
             None \<Rightarrow> (Inl (BadItem ''kind missing from item''), node)
           | Some kind \<Rightarrow>
               (case (if py_eq kind (PStr ''include'') then check_include w item_config
                      else Inr item_config) of
                  Inl e \<Rightarrow> (Inl e, node)
                | Inr config \<Rightarrow>
                    if py_eq kind (PStr ''branch'')
                    then (case walkpath of
                            None \<Rightarrow> (Inl TypeError, PDict config)
                          | Some p \<Rightarrow> (Inl AttributeError, PDict config))
                    else if py_eq kind (PStr ''question'') \<or> py_eq kind (PStr ''set'')
                    then (if list_all (\<lambda>k. map_of config k \<noteq> None) [''key'', ''title'', ''text'']
                          then (Inr (), PDict config)
                          else (Inl (BadItem ''missing for question/set item''), PDict config))
                    else (Inr (), PDict config)))
      | _ \<Rightarrow> (Inl AttributeError, node))"

fun check_walk :: "world \<Rightarrow> nat list option \<Rightarrow> pyval list \<Rightarrow> (exn + unit) \<times> pyval list" where
  "check_walk w walkpath [] = (Inr (), [])"
| "check_walk w walkpath (node # rest) =
     (case check_node w walkpath node of
        (Inl e, node') \<Rightarrow> (Inl e, node' # rest)
      | (Inr u, node') \<Rightarrow>
          (case check_walk w walkpath rest of (r, rest') \<Rightarrow> (r, node' # rest')))"

text \<open>\<open>Interview.check()\<close>: the body of the method is the docstring and the definition of
  the local function \<open>walk\<close>. No statement calls it, so the method returns \<open>None\<close> and the
  document is not touched.\<close>

definition check :: "world \<Rightarrow> pyval list \<Rightarrow> (exn + unit) \<times> pyval list" where
  "check w config = (let walk = check_walk w in (Inr (), config))"

section \<open>Auxiliary notions for the statements about the store\<close>

text \<open>A proper, non-empty prefix of the path resolves to a value that is not a mapping.\<close>

definition leaf_on_path :: "pydict \<Rightarrow> string list \<Rightarrow> bool" where
  "leaf_on_path d ks =
     list_ex (\<lambda>n. case ddw_find (take n ks) (PDict d) of
                     Inr v \<Rightarrow> \<not> is_dict v
                   | Inl e \<Rightarrow> False) [1..<length ks]"

text \<open>The same, by recursion along the path.\<close>

fun blocked :: "string list \<Rightarrow> pyval \<Rightarrow> bool" where
  "blocked [] v = False"
| "blocked [k] v = False"
| "blocked (k # ks) (PDict d) = (case map_of d k of None \<Rightarrow> False | Some c \<Rightarrow> \<not> is_dict c \<or> blocked ks c)"
| "blocked (k # ks) v = False"

text \<open>The result of \<open>_find\<close> is a value that is not a mapping.\<close>

definition leafres :: "exn + pyval \<Rightarrow> bool" where
  "leafres r = (case r of Inr v \<Rightarrow> \<not> is_dict v | Inl e \<Rightarrow> False)"

text \<open>\<open>".".join(ks)\<close>.\<close>

fun join_dots :: "string list \<Rightarrow> string" where
  "join_dots [] = []"
| "join_dots [k] = k"
| "join_dots (k # ks) = k @ ''.'' @ join_dots ks"

text \<open>The key that \<open>_walk\<close> builds for the path \<open>ks\<close> below the prefix \<open>pref\<close>.\<close>

fun flat_key :: "string option \<Rightarrow> string list \<Rightarrow> string" where
  "flat_key pref [] = (case pref of None \<Rightarrow> [] | Some q \<Rightarrow> q)"
| "flat_key pref (k # ks) = flat_key (Some (walk_pref pref k)) ks"

text \<open>The nested one-entry mappings that a write creates below a new segment.\<close>

fun chain :: "string list \<Rightarrow> pyval \<Rightarrow> pyval" where
  "chain [] x = x"
| "chain (k # ks) x = PDict [(k, chain ks x)]"

section \<open>Example environment and documents\<close>

text \<open>The regular expression of the specification's reset scenario, \<open>^temp\<close>, a backslash,
  \<open>..*\<close>: a key matches when it begins with \<open>temp.\<close>.\<close>

definition temp_regexp :: string where
  "temp_regexp = ''^temp'' @ [CHR 0x5C] @ ''..*''"

text \<open>An environment without files, in which that regular expression is the only one that
  compiles.\<close>

definition example_world :: world where
  "example_world =
     \<lparr>read_file = (\<lambda>p. Inl OSError),
      os_walk = (\<lambda>p. None),
      re_compile = (\<lambda>p. if p = PStr temp_regexp
                          then Inr (\<lambda>v. case v of
                                           PStr s \<Rightarrow> Inr (take 5 s = ''temp.'')
                                         | _ \<Rightarrow> Inl TypeError)
                          else Inl (PyException ''re.error'')),
      yaml_load = (\<lambda>p. Inl OSError),
      path_exists = (\<lambda>p. False),
      repr = (\<lambda>v. []),
      home = None\<rparr>"

text \<open>A question in the section \<open>net\<close>, and the item that the walk builds for it.\<close>

definition host_question :: pydict where
  "host_question =
     [(''kind'', PStr ''question''), (''section'', PStr ''net''), (''key'', PStr ''host''),
      (''type'', PStr ''str''), (''title'', PStr ''Host''), (''text'', PStr ''Host name?'')]"

definition host_item :: item where
  "host_item = \<lparr>it_walkpath = [], it_key = Some (PStr ''host''), it_config = host_question\<rparr>"

text \<open>A reset node with a regular expression and no key of its own.\<close>

definition temp_reset :: pydict where
  "temp_reset = [(''kind'', PStr ''reset''), (''reset_key_regexp'', PStr temp_regexp)]"







text \<open>A reset node with a key of its own and nothing to delete.\<close>

definition phase_reset :: pydict where
  "phase_reset =
     [(''kind'', PStr ''reset''), (''reset_keys'', PList []), (''key'', PStr ''phase''),
      (''type'', PStr ''int''), (''value'', PInt 1)]"

text \<open>An update node of type \<open>int\<close> for a key, with or without its \<open>value\<close>, and the
  amount it adds.\<close>

definition update_node :: "string \<Rightarrow> int option \<Rightarrow> pyval" where
  "update_node k v =
     PDict ([(''kind'', PStr ''update''), (''key'', PStr k), (''type'', PStr ''int'')] @
            (case v of None \<Rightarrow> [] | Some n \<Rightarrow> [(''value'', PInt n)]))"

definition increment :: "int option \<Rightarrow> int" where
  "increment v = (case v of None \<Rightarrow> 1 | Some n \<Rightarrow> n)"

text \<open>An update node that can commit: not disabled, of type \<open>int\<close>, with the string key
  \<open>k\<close>, a \<open>value\<close> (or the default 1) that \<open>int\<close> converts to \<open>d\<close>, and none of the fields
  that make the constructor load values or make \<open>Item.set\<close> validate.\<close>

definition plain_update :: "pydict \<Rightarrow> string \<Rightarrow> int \<Rightarrow> bool" where
  "plain_update c k d =
     (map_of c ''kind'' = Some (PStr ''update'') \<and>
      cfg_flag c ''disabled'' = False \<and>
      map_of c ''key'' = Some (PStr k) \<and>
      map_of c ''type'' = Some (PStr ''int'') \<and>
      py_int (case map_of c ''value'' of None \<Rightarrow> PInt 1 | Some v \<Rightarrow> v) = Inr d \<and>
      list_all (\<lambda>f. map_of c f = None)
        [''default_from_file'', ''values_from_directory'', ''values_from_file'',
         ''values_regexp'', ''values'', ''regexp'', ''range''])"





section \<open>The statements of the specification, in its words\<close>

text \<open>The fully qualified key as the specification words it, for a string key: the
  section and a dot in front when the key has no dot and the node declares a section; a dot
  and the counter behind when the node declares \<open>parameterize\<close>.\<close>

definition fqkey_spec :: "string option \<Rightarrow> string \<Rightarrow> int option \<Rightarrow> string" where
  "fqkey_spec section key counter =
     (case section of
        Some s \<Rightarrow> if CHR ''.'' \<notin> set key then s @ ''.'' @ key else key
      | None \<Rightarrow> key)
     @ (case counter of None \<Rightarrow> [] | Some n \<Rightarrow> ''.'' @ show_int n)"



section \<open>Properties of the settings store\<close>


lemma blocked_empty [simp]: "blocked ks (PDict []) = False"
proof (cases ks)
  case (Cons k ks') then show ?thesis by (cases ks') simp_all
qed simp

lemma map_of_in_keys: "(k \<in> fst ` set d) = (map_of d k \<noteq> None)"
  by (simp add: map_of_eq_None_iff)

lemma set_path_fails:
  "ks \<noteq> [] \<Longrightarrow> (\<exists>e. set_path ks x v = Inl e) = (\<not> is_dict v \<or> blocked ks v)"
proof (induction ks arbitrary: v)
  case Nil then show ?case by simp
next
  case (Cons k ks)
  show ?case
  proof (cases ks)
    case Nil then show ?thesis by (cases v) simp_all
  next
    case (Cons k' ks')
    have IH: "\<And>v. (\<exists>e. set_path (k' # ks') x v = Inl e) = (\<not> is_dict v \<or> blocked (k' # ks') v)"
      using Cons.IH Cons by simp
    have IH0: "\<And>e. set_path (k' # ks') x (PDict []) \<noteq> Inl e"
      using IH[of "PDict []"] by simp
    show ?thesis
    proof (cases v)
      case (PDict d)
      show ?thesis
      proof (cases "map_of d k")
        case None
        then show ?thesis using Cons PDict IH0
          by (auto simp: map_of_in_keys split: sum.splits)
      next
        case (Some c)
        then show ?thesis using Cons PDict IH[of c]
          by (auto simp: map_of_in_keys split: sum.splits)
      qed
    qed (simp_all add: Cons split: sum.splits bool.splits)
  qed
qed

lemma find_leaf: "\<not> is_dict v \<Longrightarrow> ks \<noteq> [] \<Longrightarrow> ddw_find ks v = Inl KeyError"
  by (cases ks; cases v) simp_all

lemma blocked_prefix:
  "blocked ks (PDict d) = (\<exists>n. 0 < n \<and> n < length ks \<and> leafres (ddw_find (take n ks) (PDict d)))"
proof (induction ks arbitrary: d)
  case Nil then show ?case by simp
next
  case (Cons k ks)
  show ?case
  proof (cases ks)
    case Nil then show ?thesis by simp
  next
    case (Cons k' ks')
    show ?thesis
    proof (cases "map_of d k")
      case None
      have "\<And>n. 0 < n \<Longrightarrow> ddw_find (take n (k # ks)) (PDict d) = Inl KeyError"
        using None by (case_tac n) simp_all
      then show ?thesis using None Cons by (auto simp: leafres_def)
    next
      case (Some c)
      have step: "\<And>n. ddw_find (take (Suc n) (k # ks)) (PDict d) = ddw_find (take n ks) c"
        using Some by simp
      show ?thesis
      proof (cases "is_dict c")
        case True
        then obtain d2 where PDict: "c = PDict d2" by (cases c) simp_all
        have "blocked (k # ks) (PDict d) = blocked ks (PDict d2)"
          using Some PDict Cons by simp
        also have "\<dots> = (\<exists>n. 0 < n \<and> n < length ks \<and> leafres (ddw_find (take n ks) (PDict d2)))"
          by (rule Cons.IH)
        also have "\<dots> = (\<exists>n. 0 < n \<and> n < length (k # ks) \<and> leafres (ddw_find (take n (k # ks)) (PDict d)))"
        proof
          assume "\<exists>n. 0 < n \<and> n < length ks \<and> leafres (ddw_find (take n ks) (PDict d2))"
          then obtain n where "0 < n" "n < length ks" "leafres (ddw_find (take n ks) (PDict d2))" by blast
          then have "0 < Suc n \<and> Suc n < length (k # ks) \<and> leafres (ddw_find (take (Suc n) (k # ks)) (PDict d))"
            using step PDict by simp
          then show "\<exists>n. 0 < n \<and> n < length (k # ks) \<and> leafres (ddw_find (take n (k # ks)) (PDict d))" by blast
        next
          assume "\<exists>n. 0 < n \<and> n < length (k # ks) \<and> leafres (ddw_find (take n (k # ks)) (PDict d))"
          then obtain n where n: "0 < n" "n < length (k # ks)" "leafres (ddw_find (take n (k # ks)) (PDict d))" by blast
          then obtain m where m: "n = Suc m" by (cases n) auto
          have "m \<noteq> 0" using n m Some PDict by (cases m) (auto simp: leafres_def)
          then show "\<exists>n. 0 < n \<and> n < length ks \<and> leafres (ddw_find (take n ks) (PDict d2))"
            using n m step PDict by auto
        qed
        finally show ?thesis .
      next
        case False
        then have "leafres (ddw_find (take (Suc 0) (k # ks)) (PDict d))" using Some by (simp add: leafres_def)
        moreover have "Suc 0 < length (k # ks)" using Cons by simp
        moreover have "blocked (k # ks) (PDict d)" using Some False Cons by simp
        ultimately show ?thesis by blast
      qed
    qed
  qed
qed


lemma map_of_update_same: "map_of (AList.update k v d) k = Some v"
  by (simp add: AList.update_conv')

lemma set_path_is_dict: "set_path ks x v = Inr r \<Longrightarrow> is_dict r"
proof (cases ks)
  case Nil then show "set_path ks x v = Inr r \<Longrightarrow> is_dict r" by simp
next
  case (Cons k ks')
  assume a: "set_path ks x v = Inr r"
  show "is_dict r"
  proof (cases ks')
    case Nil then show ?thesis using a Cons by (cases v) auto
  next
    case (Cons k' ks'')
    then show ?thesis using a \<open>ks = k # ks'\<close>
      by (cases v) (auto split: sum.splits bool.splits option.splits if_splits)
  qed
qed

lemma set_path_find: "set_path ks x v = Inr r \<Longrightarrow> ddw_find ks r = Inr x"
proof (induction ks arbitrary: v r)
  case Nil then show ?case by simp
next
  case (Cons k ks)
  show ?case
  proof (cases ks)
    case Nil then show ?thesis using Cons.prems by (cases v) (auto simp: map_of_update_same)
  next
    case (Cons k' ks')
    then show ?thesis using Cons.prems Cons.IH
      by (cases v) (auto simp: map_of_update_same split: sum.splits bool.splits option.splits if_splits)
  qed
qed

lemma set_path_prefix_dicts:
  "set_path ks x v = Inr r \<Longrightarrow> n < length ks \<Longrightarrow> \<exists>dd. ddw_find (take n ks) r = Inr (PDict dd)"
proof (induction ks arbitrary: v r n)
  case Nil then show ?case by simp
next
  case (Cons k ks)
  have rd: "is_dict r" using Cons.prems(1) by (rule set_path_is_dict)
  show ?case
  proof (cases n)
    case 0 then show ?thesis using rd by (cases r) simp_all
  next
    case (Suc m)
    then have m: "m < length ks" using Cons.prems by simp
    then obtain k' ks' where ks: "ks = k' # ks'" by (cases ks) auto
    show ?thesis using Cons.prems(1) Cons.IH[OF _ m] Suc ks
      by (cases v) (auto simp: map_of_update_same split: sum.splits bool.splits option.splits if_splits)
  qed
qed

lemma split_on_not_Nil [simp]: "split_on c s \<noteq> []"
  by (induction s) (auto simp: Let_def)

lemma join_dots_cons_char: "r \<noteq> [] \<Longrightarrow> join_dots ((c # hd r) # tl r) = c # join_dots r"
  by (cases r; cases "tl r") auto

lemma join_split: "join_dots (split_on CHR ''.'' s) = s"
proof (induction s)
  case Nil show ?case by simp
next
  case (Cons c s)
  obtain a r where r: "split_on CHR ''.'' s = a # r" by (cases "split_on CHR ''.'' s") auto
  show ?case using Cons r by (cases r) (auto simp: Let_def)
qed

lemma walk_mem_leaf:
  "map_of d k = Some v \<Longrightarrow> \<not> is_dict v \<Longrightarrow> (walk_pref pref k, v) \<in> set (ddw_walk d pref)"
  by (induction d) (auto split: if_splits pyval.splits)

lemma walk_mem_sub:
  "map_of d k = Some (PDict c) \<Longrightarrow> set (ddw_walk c (Some (walk_pref pref k))) \<subseteq> set (ddw_walk d pref)"
  by (induction d) (auto split: if_splits pyval.splits)

lemma find_in_walk:
  "ddw_find ks (PDict d) = Inr x \<Longrightarrow> \<not> is_dict x \<Longrightarrow> (flat_key pref ks, x) \<in> set (ddw_walk d pref)"
proof (induction ks arbitrary: d pref)
  case Nil then show ?case by auto
next
  case (Cons k ks)
  then obtain c where c: "map_of d k = Some c" "ddw_find ks c = Inr x"
    by (auto split: option.splits)
  show ?case
  proof (cases ks)
    case Nil then show ?thesis using c Cons.prems walk_mem_leaf by simp
  next
    case (Cons k' ks')
    then obtain d2 where d2: "c = PDict d2" using c by (cases c) auto
    have "(flat_key (Some (walk_pref pref k)) ks, x) \<in> set (ddw_walk d2 (Some (walk_pref pref k)))"
      using Cons.IH c d2 Cons.prems by blast
    then show ?thesis using walk_mem_sub[of d k d2 pref] c d2 by auto
  qed
qed

lemma flat_key_Some: "q \<noteq> [] \<Longrightarrow> flat_key (Some q) ks = q @ concat (map (\<lambda>k. ''.'' @ k) ks)"
  by (induction ks arbitrary: q) (auto simp: walk_pref_def)

lemma join_dots_concat: "join_dots (k # ks) = k @ concat (map (\<lambda>k. ''.'' @ k) ks)"
  by (induction ks arbitrary: k) auto

lemma flat_key_join: "ks \<noteq> [] \<Longrightarrow> hd ks \<noteq> [] \<or> length ks = 1 \<Longrightarrow> flat_key None ks = join_dots ks"
  by (cases ks) (auto simp: flat_key_Some join_dots_concat walk_pref_def)

lemma ddw_walk_append: "ddw_walk (d @ e) pref = ddw_walk d pref @ ddw_walk e pref"
  by (induction d) auto

lemma update_fresh: "k \<notin> fst ` set d \<Longrightarrow> AList.update k v d = d @ [(k, v)]"
  by (induction d) auto

lemma set_path_empty: "ks \<noteq> [] \<Longrightarrow> set_path ks x (PDict []) = Inr (chain ks x)"
proof (induction ks)
  case Nil then show ?case by simp
next
  case (Cons k ks) then show ?case by (cases ks) auto
qed

lemma update_last: "k \<notin> fst ` set d \<Longrightarrow> AList.update k v (d @ [(k, w)]) = d @ [(k, v)]"
  by (induction d) auto

lemma set_path_fresh:
  "k \<notin> fst ` set d \<Longrightarrow> set_path (k # ks) x (PDict d) = Inr (PDict (d @ [(k, chain ks x)]))"
  using set_path_empty[of ks x] by (cases ks) (auto simp: update_fresh update_last)

lemma walk_chain:
  "\<not> is_dict x \<Longrightarrow> ddw_walk [(k, chain ks x)] pref = [(flat_key pref (k # ks), x)]"
proof (induction ks arbitrary: k pref)
  case Nil then show ?case by (cases x) auto
next
  case (Cons k' ks) then show ?case by simp
qed



lemma leaf_on_path_iff:
  "leaf_on_path d ks = (\<exists>n. 0 < n \<and> n < length ks \<and> leafres (ddw_find (take n ks) (PDict d)))"
proof -
  have "\<And>n. (n \<in> set [1..<length ks]) = (0 < n \<and> n < length ks)" by auto
  then show ?thesis unfolding leaf_on_path_def list_ex_iff leafres_def by blast
qed

lemma leaf_on_path_blocked: "leaf_on_path d ks = blocked ks (PDict d)"
  by (simp add: leaf_on_path_iff blocked_prefix)

text \<open>
  Claim C5. Writing through a path whose prefix already holds a leaf fails: if some proper
  prefix of the dotted path resolves to a value that is not a mapping, \<open>__setitem__\<close>
  raises \<open>KeyError\<close>; otherwise it succeeds, the value is found at the path afterwards and
  every proper prefix resolves to a mapping (created where it was missing).
\<close>

theorem setitem_prefix_conflict:
  "(leaf_on_path d (split_on CHR ''.'' key) \<longrightarrow> ddw_setitem d (PStr key) x = Inl KeyError) \<and>
   (\<not> leaf_on_path d (split_on CHR ''.'' key) \<longrightarrow>
      (\<exists>d'. ddw_setitem d (PStr key) x = Inr d' \<and>
            ddw_find (split_on CHR ''.'' key) (PDict d') = Inr x \<and>
            (\<forall>n < length (split_on CHR ''.'' key).
               \<exists>m. ddw_find (take n (split_on CHR ''.'' key)) (PDict d') = Inr (PDict m))))"
proof (intro conjI impI)
  let ?ks = "split_on CHR ''.'' key"
  have ne: "?ks \<noteq> []" by simp
  {
    assume "leaf_on_path d ?ks"
    then have "\<exists>e. set_path ?ks x (PDict d) = Inl e"
      using set_path_fails[OF ne, of x "PDict d"] by (simp add: leaf_on_path_blocked)
    then show "ddw_setitem d (PStr key) x = Inl KeyError"
      by (auto simp: ddw_setitem_def)
  }
  {
    assume "\<not> leaf_on_path d ?ks"
    then have "\<not> (\<exists>e. set_path ?ks x (PDict d) = Inl e)"
      using set_path_fails[OF ne, of x "PDict d"] by (simp add: leaf_on_path_blocked)
    then obtain r where r: "set_path ?ks x (PDict d) = Inr r"
      by (cases "set_path ?ks x (PDict d)") auto
    then obtain d' where d': "r = PDict d'"
      using set_path_is_dict[OF r] by (cases r) simp_all
    have "ddw_setitem d (PStr key) x = Inr d'"
      using r d' by (simp add: ddw_setitem_def)
    moreover have "ddw_find ?ks (PDict d') = Inr x"
      using set_path_find[OF r] d' by simp
    moreover have "\<forall>n < length ?ks. \<exists>m. ddw_find (take n ?ks) (PDict d') = Inr (PDict m)"
      using set_path_prefix_dicts[OF r] d' by simp
    ultimately show "\<exists>d'. ddw_setitem d (PStr key) x = Inr d' \<and>
            ddw_find ?ks (PDict d') = Inr x \<and>
            (\<forall>n < length ?ks. \<exists>m. ddw_find (take n ?ks) (PDict d') = Inr (PDict m))"
      by blast
  }
qed

text \<open>The example of the specification: after \<open>set("a.b", 1)\<close>, \<open>set("a.b.c", 2)\<close> fails;
  on the empty store it succeeds.\<close>

theorem setitem_prefix_conflict_witness:
  "ddw_setitem [] (PStr ''a.b'') (PInt 1) = Inr [(''a'', PDict [(''b'', PInt 1)])] \<and>
   leaf_on_path [(''a'', PDict [(''b'', PInt 1)])] (split_on CHR ''.'' ''a.b.c'') \<and>
   ddw_setitem [(''a'', PDict [(''b'', PInt 1)])] (PStr ''a.b.c'') (PInt 2) = Inl KeyError \<and>
   \<not> leaf_on_path [] (split_on CHR ''.'' ''a.b.c'') \<and>
   (\<exists>d'. ddw_setitem [] (PStr ''a.b.c'') (PInt 2) = Inr d' \<and>
         ddw_find (split_on CHR ''.'' ''a.b.c'') (PDict d') = Inr (PInt 2))"
proof -
  have s: "ddw_setitem [] (PStr ''a.b'') (PInt 1) = Inr [(''a'', PDict [(''b'', PInt 1)])]"
    by (simp add: ddw_setitem_def)
  have l: "leaf_on_path [(''a'', PDict [(''b'', PInt 1)])] (split_on CHR ''.'' ''a.b.c'')"
    by (simp add: leaf_on_path_def upt_rec)
  have n: "\<not> leaf_on_path [] (split_on CHR ''.'' ''a.b.c'')"
    by (simp add: leaf_on_path_def upt_rec)
  from setitem_prefix_conflict[of "[(''a'', PDict [(''b'', PInt 1)])]" "''a.b.c''" "PInt 2"] l
  have f: "ddw_setitem [(''a'', PDict [(''b'', PInt 1)])] (PStr ''a.b.c'') (PInt 2) = Inl KeyError"
    by blast
  from setitem_prefix_conflict[of "[]" "''a.b.c''" "PInt 2"] n
  have g: "\<exists>d'. ddw_setitem [] (PStr ''a.b.c'') (PInt 2) = Inr d' \<and>
         ddw_find (split_on CHR ''.'' ''a.b.c'') (PDict d') = Inr (PInt 2)"
    by blast
  show ?thesis using s l n f g by blast
qed





lemma no_leading_dot: "take 1 key \<noteq> ''.'' \<Longrightarrow>
   hd (split_on CHR ''.'' key) \<noteq> [] \<or> length (split_on CHR ''.'' key) = 1"
  by (cases key) (auto simp: Let_def)

lemma hd_split_fresh:
  assumes "hd (split_on CHR ''.'' key) \<notin> fst ` set d"
  shows "set_path (split_on CHR ''.'' key) x (PDict d) =
         Inr (PDict (d @ [(hd (split_on CHR ''.'' key), chain (tl (split_on CHR ''.'' key)) x)]))"
proof -
  obtain k ks where ks: "split_on CHR ''.'' key = k # ks"
    by (cases "split_on CHR ''.'' key") auto
  show ?thesis using assms set_path_fresh[of k d ks x] ks by simp
qed

text \<open>
  The round trip away from the defect of claim C6. For a value that is not a mapping and a
  dotted path that does not begin with the separator: whenever \<open>set\<close> succeeds, \<open>get\<close> of the
  same path returns the value just written and \<open>items()\<close> contains the pair of the path and
  the value; when the first segment is new to the store, \<open>set\<close> does succeed and \<open>items()\<close>
  is the previous enumeration followed by that pair.
\<close>

lemma round_trip_without_leading_dot:
  assumes leaf: "\<not> is_dict x" and nodot: "take 1 key \<noteq> ''.''"
  shows "(\<forall>d'. ddw_setitem d (PStr key) x = Inr d' \<longrightarrow>
            ddw_get d' (PStr key) = Some x \<and> (key, x) \<in> set (ddw_items d')) \<and>
         (hd (split_on CHR ''.'' key) \<notin> fst ` set d \<longrightarrow>
            (\<exists>d'. ddw_setitem d (PStr key) x = Inr d' \<and>
                  ddw_items d' = ddw_items d @ [(key, x)]))"
proof (intro conjI allI impI)
  let ?ks = "split_on CHR ''.'' key"
  have ne: "?ks \<noteq> []" by simp
  have fk: "flat_key None ?ks = key"
    using flat_key_join[OF ne no_leading_dot[OF nodot]] by (simp add: join_split)
  {
    fix d' assume "ddw_setitem d (PStr key) x = Inr d'"
    then have r: "set_path ?ks x (PDict d) = Inr (PDict d')"
      by (auto simp: ddw_setitem_def split: sum.splits pyval.splits)
    have f: "ddw_find ?ks (PDict d') = Inr x" using set_path_find[OF r] .
    show "ddw_get d' (PStr key) = Some x"
      using f by (simp add: ddw_get_def ddw_contains_def ddw_getitem_def)
    show "(key, x) \<in> set (ddw_items d')"
      using find_in_walk[OF f leaf, of None] fk by (simp add: ddw_items_def)
  }
  {
    assume fresh: "hd ?ks \<notin> fst ` set d"
    obtain k ks where ks: "?ks = k # ks" using ne by (cases ?ks) auto
    have r: "set_path ?ks x (PDict d) = Inr (PDict (d @ [(k, chain ks x)]))"
      using hd_split_fresh[OF fresh, of x] ks by simp
    have "ddw_walk [(k, chain ks x)] None = [(key, x)]"
      using walk_chain[OF leaf, of k ks None] fk ks by simp
    then have "ddw_items (d @ [(k, chain ks x)]) = ddw_items d @ [(key, x)]"
      by (simp add: ddw_items_def ddw_walk_append)
    then show "\<exists>d'. ddw_setitem d (PStr key) x = Inr d' \<and> ddw_items d' = ddw_items d @ [(key, x)]"
      using r by (simp add: ddw_setitem_def)
  }
qed

text \<open>
  Claim C6 holds on the example of the specification: after \<open>set("a.b.c", 5)\<close> on the empty
  store, \<open>get("a.b.c")\<close> returns 5 and \<open>items()\<close> yields the pair \<open>("a.b.c", 5)\<close>.
\<close>

lemma round_trip_example:
  "\<not> is_dict (PInt 5) \<and> take 1 ''a.b.c'' \<noteq> ''.'' \<and>
   hd (split_on CHR ''.'' ''a.b.c'') \<notin> fst ` set ([] :: pydict) \<and>
   ddw_setitem [] (PStr ''a.b.c'') (PInt 5) =
     Inr [(''a'', PDict [(''b'', PDict [(''c'', PInt 5)])])] \<and>
   ddw_get [(''a'', PDict [(''b'', PDict [(''c'', PInt 5)])])] (PStr ''a.b.c'') = Some (PInt 5) \<and>
   ddw_items [(''a'', PDict [(''b'', PDict [(''c'', PInt 5)])])] = [(''a.b.c'', PInt 5)]"
proof -
  have h1: "\<not> is_dict (PInt 5)" by simp
  have h2: "take 1 ''a.b.c'' \<noteq> ''.''" by simp
  have h3: "hd (split_on CHR ''.'' ''a.b.c'') \<notin> fst ` set ([] :: pydict)" by simp
  have s: "ddw_setitem [] (PStr ''a.b.c'') (PInt 5) =
     Inr [(''a'', PDict [(''b'', PDict [(''c'', PInt 5)])])]"
    by (simp add: ddw_setitem_def)
  from round_trip_without_leading_dot[OF h1 h2, of "[]"] h3 s
  have "ddw_get [(''a'', PDict [(''b'', PDict [(''c'', PInt 5)])])] (PStr ''a.b.c'') = Some (PInt 5) \<and>
        ddw_items [(''a'', PDict [(''b'', PDict [(''c'', PInt 5)])])] = ddw_items [] @ [(''a.b.c'', PInt 5)]"
    by auto
  then show ?thesis using h1 h2 h3 s by (simp add: ddw_items_def)
qed

text \<open>
  Claim C6 fails on the code for a path that begins with the separator. \<open>__setitem__\<close> and
  \<open>_find\<close> keep the empty first segment of \<open>.b\<close>, so \<open>set\<close> and \<open>get\<close> agree on the path.
  \<open>_walk\<close> tests the prefix for truth (\<open>if pref\<close>), takes the empty prefix for no prefix
  and drops it: \<open>items()\<close> and \<open>keys()\<close> yield the key \<open>b\<close>, a key that the store itself
  does not contain.
\<close>

theorem items_drops_empty_first_segment:
  "ddw_setitem [] (PStr ''.b'') (PInt 5) = Inr [([], PDict [(''b'', PInt 5)])] \<and>
   ddw_get [([], PDict [(''b'', PInt 5)])] (PStr ''.b'') = Some (PInt 5) \<and>
   ddw_items [([], PDict [(''b'', PInt 5)])] = [(''b'', PInt 5)] \<and>
   ddw_keys [([], PDict [(''b'', PInt 5)])] = [''b''] \<and>
   ddw_contains [([], PDict [(''b'', PInt 5)])] (PStr ''b'') = False"
  by (simp add: ddw_setitem_def ddw_items_def ddw_keys_def ddw_get_def ddw_contains_def
      ddw_getitem_def walk_pref_def)

section \<open>Evaluation of the model\<close>

lemmas item_defs =
  Item_init_def init_default_def init_values_dir_def init_values_file_def
  init_values_regexp_def init_values_process_def init_values_convert_def init_values_sort_def
  Item_get_fqkey_def Item_set_def convert_value_def validate_def cfg_get_def cfg_flag_def
  get_int_def

lemmas store_defs =
  ddw_get_def ddw_contains_def ddw_getitem_def ddw_setitem_def ddw_keys_def ddw_items_def
  walk_pref_def ddw_delitem_def

lemmas walk_defs =
  visit_def visit_setter_def visit_include_def visit_update_def set_if_needed_def
  enter_branch_def branch_no_match_def reset_deletions_def item_kinds_def


section \<open>Properties of the item model\<close>

text \<open>
  Claim C1 fails on the code. \<open>Item.set\<close> stores the value under \<open>self.key\<close>, and the walk
  constructs the item with the node's bare \<open>key\<close>; the walk decides whether the item is
  pending under the fully qualified key. For the question \<open>host\<close> in the section \<open>net\<close>:
  the scan returns the item, its fully qualified key is \<open>net.host\<close>, the answer is stored
  under \<open>host\<close>, \<open>net.host\<close> is still absent, and the next scan returns the same item.
\<close>

theorem set_commits_under_raw_key:
  "next_item 1 w [PDict host_question] [] = Some (Inr (Some host_item), [PDict host_question], []) \<and>
   Item_get_fqkey w [] host_question PNone = Inr (PStr ''net.host'') \<and>
   Item_set w [] host_item (PStr ''alpha'') = Inr [(''host'', PStr ''alpha'')] \<and>
   ddw_get [(''host'', PStr ''alpha'')] (PStr ''net.host'') = None \<and>
   next_item 1 w [PDict host_question] [(''host'', PStr ''alpha'')] =
     Some (Inr (Some host_item), [PDict host_question], [(''host'', PStr ''alpha'')])"
  by (simp add: host_question_def host_item_def item_defs store_defs walk_defs)

text \<open>
  Claim C8 fails on the code for \<open>desc\<close>. The constructor calls \<open>reverse\<close>, which is not
  defined: an item with \<open>values\<close> and \<open>values_sort: desc\<close> cannot be constructed.
\<close>

theorem values_sort_desc_raises:
  "Item_init w [(''kind'', PStr ''question''), (''key'', PStr ''colour''), (''type'', PStr ''str''),
                (''values'', PList [PStr ''b'', PStr ''a'']), (''values_sort'', PStr ''desc'')]
   = Inl NameError"
  by (simp add: item_defs)

text \<open>The same node with \<open>asc\<close> is constructed with its values in ascending order.\<close>

lemma values_sort_asc_example:
  "Item_init w [(''kind'', PStr ''question''), (''key'', PStr ''colour''), (''type'', PStr ''str''),
                (''values'', PList [PStr ''b'', PStr ''a'']), (''values_sort'', PStr ''asc'')]
   = Inr [(''kind'', PStr ''question''), (''key'', PStr ''colour''), (''type'', PStr ''str''),
                (''values'', PList [PStr ''a'', PStr ''b'']), (''values_sort'', PStr ''asc'')]"
  by (simp add: item_defs py_sorted_def)

section \<open>Properties of the traversal engine\<close>

text \<open>
  Claim C2 fails on the code. The deletion loop reaches \<open>del settings[key]\<close> at the first
  key that matches, and the store has no deletion: the walk raises \<open>AttributeError\<close> and every
  setting stays, the matching ones too.
\<close>

theorem reset_regexp_raises:
  "ddw_keys [(''temp'', PDict [(''x'', PInt 1)]), (''keep'', PInt 2)] = [''temp.x'', ''keep''] \<and>
   walk example_world [PDict temp_reset] [] 0 [(''temp'', PDict [(''x'', PInt 1)]), (''keep'', PInt 2)] =
     (Inl AttributeError, [PDict temp_reset], [(''temp'', PDict [(''x'', PInt 1)]), (''keep'', PInt 2)])"
  by (simp add: temp_reset_def example_world_def item_defs store_defs walk_defs)

section \<open>Properties of the orchestrator\<close>

text \<open>
  Claim C4 fails on the code. \<open>check()\<close> never runs its local function: a document whose
  only node has no \<open>kind\<close> passes.
\<close>

theorem check_never_raises:
  "check w [PDict [(''name'', PStr ''no kind'')]] = (Inr (), [PDict [(''name'', PStr ''no kind'')]])"
  by (simp add: check_def)

text \<open>Had the local function been called, it would have raised on that document.\<close>

lemma check_walk_missing_kind:
  "check_walk w None [PDict [(''name'', PStr ''no kind'')]] =
     (Inl (BadItem ''kind missing from item''), [PDict [(''name'', PStr ''no kind'')]])"
  by (simp add: check_node_def)

text \<open>It does not test the kind against the known kinds, and it cannot walk a branch.\<close>

lemma check_walk_unknown_kind:
  "check_walk w None [PDict [(''kind'', PStr ''bogus'')]] =
     (Inr (), [PDict [(''kind'', PStr ''bogus'')]])"
  by (simp add: check_node_def)

lemma check_walk_branch:
  "check_walk w None [PDict [(''kind'', PStr ''branch''), (''interview'', PList [])]] =
     (Inl TypeError, [PDict [(''kind'', PStr ''branch''), (''interview'', PList [])]])"
  by (simp add: check_node_def)

section \<open>Key derivation and range validation\<close>

lemma substr_single: "substr [c] s = (c \<in> set s)"
  by (induction s) auto

text \<open>
  Claim C9. The key derivation that \<open>Interview.next\<close> defines locally and the method
  \<open>Item.get_fqkey\<close> return the same result on every configuration, key argument and
  settings state. For a string key the result is the key of the specification: the section
  in front only when the key has no dot, and the counter read from the \<open>parameterize\<close>
  setting (0 when it is absent, converted with \<open>int\<close>) behind.
\<close>

theorem fqkey_same_on_both_paths:
  "next_get_fqkey w settings config key = Item_get_fqkey w settings config key \<and>
   (\<forall>k sect cnt.
      (if key = PNone then cfg_get config ''key'' else key) = PStr k \<longrightarrow>
      map_of config ''section'' = map_option PStr sect \<longrightarrow>
      (case map_of config ''parameterize'' of
         None \<Rightarrow> cnt = None
       | Some ck \<Rightarrow> \<exists>n. cnt = Some n \<and> get_int settings ck 0 = Inr n) \<longrightarrow>
      Item_get_fqkey w settings config key = Inr (PStr (fqkey_spec sect k cnt)))"
proof (intro conjI allI impI)
  show "next_get_fqkey w settings config key = Item_get_fqkey w settings config key"
    by (simp add: next_get_fqkey_def Item_get_fqkey_def)
next
  fix k sect cnt
  assume k: "(if key = PNone then cfg_get config ''key'' else key) = PStr k"
    and s: "map_of config ''section'' = map_option PStr sect"
    and c: "case map_of config ''parameterize'' of
              None \<Rightarrow> cnt = None
            | Some ck \<Rightarrow> \<exists>n. cnt = Some n \<and> get_int settings ck 0 = Inr n"
  show "Item_get_fqkey w settings config key = Inr (PStr (fqkey_spec sect k cnt))"
  proof (cases "map_of config ''parameterize''")
    case None
    then show ?thesis using k s c
      by (cases sect) (auto simp: Item_get_fqkey_def fqkey_spec_def Let_def substr_single)
  next
    case (Some ck)
    then obtain n where "cnt = Some n" "get_int settings ck 0 = Inr n" using c by auto
    then show ?thesis using k s Some
      by (cases sect) (auto simp: Item_get_fqkey_def fqkey_spec_def Let_def substr_single)
  qed
qed

text \<open>A node with section \<open>net\<close>, key \<open>host\<close> and the counter setting \<open>n\<close> holding
  the string \<open>2\<close>.\<close>

theorem fqkey_same_on_both_paths_witness:
  "next_get_fqkey example_world [(''n'', PStr ''2'')]
      [(''section'', PStr ''net''), (''key'', PStr ''host''), (''parameterize'', PStr ''n'')] PNone =
   Inr (PStr ''net.host.2'') \<and>
   Item_get_fqkey example_world [(''n'', PStr ''2'')]
      [(''section'', PStr ''net''), (''key'', PStr ''host''), (''parameterize'', PStr ''n'')] PNone =
   Inr (PStr ''net.host.2'')"
proof -
  let ?c = "[(''section'', PStr ''net''), (''key'', PStr ''host''), (''parameterize'', PStr ''n'')]"
  let ?s = "[(''n'', PStr ''2'')]"
  have g: "get_int ?s (PStr ''n'') 0 = Inr 2"
    by (simp add: get_int_def ddw_get_def ddw_contains_def ddw_getitem_def int_of_str_def strip_def
        is_int_space_def nat_of_str_def digit_val_def)
  have f: "fqkey_spec (Some ''net'') ''host'' (Some 2) = ''net.host.2''"
    by (simp add: fqkey_spec_def show_int_def)
  from fqkey_same_on_both_paths[of example_world ?s ?c PNone]
  have eq: "next_get_fqkey example_world ?s ?c PNone = Item_get_fqkey example_world ?s ?c PNone"
    and sp: "\<And>k sect cnt. (if PNone = PNone then cfg_get ?c ''key'' else PNone) = PStr k \<Longrightarrow>
      map_of ?c ''section'' = map_option PStr sect \<Longrightarrow>
      (case map_of ?c ''parameterize'' of
         None \<Rightarrow> cnt = None
       | Some ck \<Rightarrow> \<exists>n. cnt = Some n \<and> get_int ?s ck 0 = Inr n) \<Longrightarrow>
      Item_get_fqkey example_world ?s ?c PNone = Inr (PStr (fqkey_spec sect k cnt))"
    by blast+
  have "Item_get_fqkey example_world ?s ?c PNone = Inr (PStr (fqkey_spec (Some ''net'') ''host'' (Some 2)))"
    by (rule sp) (simp_all add: cfg_get_def g)
  then show ?thesis using eq f by simp
qed

lemma split1_no_sep: "c \<notin> set a \<Longrightarrow> split1 c a = [a]"
  by (induction a) (auto simp: Let_def)










section \<open>Reset nodes and the restart of the walk\<close>

text \<open>The deletion loops of a reset node never change the settings: they either find
  nothing to delete or raise at the first setting they try to delete.\<close>

lemma reset_regexp_loop_deletes_nothing:
  "reset_regexp_loop cre ks s = Inr s' \<Longrightarrow> s' = s \<and> list_all (\<lambda>k. cre (PStr k) = Inr False) ks"
proof (induction ks)
  case Nil then show ?case by simp
next
  case (Cons k ks)
  then show ?case
    by (cases "cre (PStr k)") (auto simp: ddw_delitem_def split: if_splits)
qed

lemma reset_keys_loop_deletes_nothing:
  "reset_keys_loop w c ks s = Inr s' \<Longrightarrow> s' = s"
proof (induction ks)
  case Nil then show ?case by simp
next
  case (Cons k ks)
  then show ?case
    by (cases "Item_get_fqkey w s c k") (auto simp: ddw_delitem_def split: if_splits)
qed

lemma reset_deletions_deletes_nothing:
  "reset_deletions w c s = Inr s' \<Longrightarrow> s' = s"
  by (auto simp: reset_deletions_def split: option.splits
      dest!: bind_exn_Inr reset_keys_loop_deletes_nothing reset_regexp_loop_deletes_nothing)

lemma reset_regexp_match_raises:
  assumes "map_of c ''reset_keys'' = None" and "map_of c ''reset_key_regexp'' = Some p"
    and "re_compile w p = Inr cre" and "k \<in> set (ddw_keys s)" and "cre (PStr k) = Inr True"
  shows "\<exists>e. reset_deletions w c s = Inl e"
proof (cases "reset_deletions w c s")
  case (Inr s')
  then have "reset_regexp_loop cre (ddw_keys s) s = Inr s'"
    using assms(1-3) by (simp add: reset_deletions_def)
  then have "list_all (\<lambda>k. cre (PStr k) = Inr False) (ddw_keys s)"
    using reset_regexp_loop_deletes_nothing by blast
  then show ?thesis using assms(4,5) by (auto simp: list_all_iff)
qed simp

lemma visit_reset:
  assumes kind: "map_of c ''kind'' = Some (PStr ''reset'')"
    and en: "\<not> cfg_flag c ''disabled''"
    and init: "Item_init w c = Inr c'"
    and del: "reset_deletions w c' s = Inr s1"
  shows "visit w wp (PDict c) s =
     (case set_if_needed w ''reset'' \<lparr>it_walkpath = wp, it_key = map_of c ''key'', it_config = c'\<rparr> s1 of
        (st, s2) \<Rightarrow> (st, PDict c', s2))"
  using assms
  by (simp add: visit_def visit_setter_def item_kinds_def Let_def split: prod.splits step.splits)

lemma set_if_needed_reset:
  "set_if_needed w ''reset'' it s1 =
     (case map_of (it_config it) ''key'' of
        None \<Rightarrow> (Next, s1)
      | Some k \<Rightarrow>
          (case Item_get_fqkey w s1 (it_config it) PNone of
             Inl e \<Rightarrow> (Raise e, s1)
           | Inr fq \<Rightarrow>
               if ddw_get s1 fq = None \<or> cfg_flag (it_config it) ''force''
               then (case Item_set w s1 it (cfg_get (it_config it) ''value'') of
                       Inl e \<Rightarrow> (Raise e, s1)
                     | Inr s2 \<Rightarrow> (Raise RetryWalk, s2))
               else (Next, s1)))"
  by (simp add: set_if_needed_def Let_def split: option.splits sum.splits)

text \<open>
  The walk at a reset node that is not disabled, whose constructor succeeds and whose
  deletion loop raises nothing: the restart is raised in one case only, after the node's
  own \<open>key\<close> (absent from the settings, or forced) has been committed through \<open>Item.set\<close>.
  Without a \<open>key\<close>, or with a key that is set and not forced, the walk goes on with the
  next sibling.
\<close>

lemma walk_reset_node:
  assumes kind: "map_of c ''kind'' = Some (PStr ''reset'')"
    and en: "\<not> cfg_flag c ''disabled''"
    and init: "Item_init w c = Inr c'"
    and del: "reset_deletions w c' s = Inr s1"
  shows "walk w (PDict c # rest) wp i s =
     (case map_of c' ''key'' of
        None \<Rightarrow>
          (case walk w rest wp (Suc i) s1 of (r, rest', s2) \<Rightarrow> (r, PDict c' # rest', s2))
      | Some k \<Rightarrow>
          (case Item_get_fqkey w s1 c' PNone of
             Inl e \<Rightarrow> (Inl e, PDict c' # rest, s1)
           | Inr fq \<Rightarrow>
               if ddw_get s1 fq = None \<or> cfg_flag c' ''force''
               then (case Item_set w s1
                            \<lparr>it_walkpath = wp, it_key = map_of c ''key'', it_config = c'\<rparr>
                            (cfg_get c' ''value'') of
                       Inl e \<Rightarrow> (Inl e, PDict c' # rest, s1)
                     | Inr s2 \<Rightarrow> (Inl RetryWalk, PDict c' # rest, s2))
               else (case walk w rest wp (Suc i) s1 of
                       (r, rest', s2) \<Rightarrow> (r, PDict c' # rest', s2))))"
  by (simp add: visit_reset[OF assms] set_if_needed_reset split: option.splits sum.splits prod.splits)

text \<open>A reset node with its own key restarts the walk when the key is absent and does
  not when it is present; a reset node without a key does not restart.\<close>

lemma walk_reset_node_examples:
  "walk example_world [PDict phase_reset] [] 0 [] =
     (Inl RetryWalk, [PDict phase_reset], [(''phase'', PInt 1)]) \<and>
   walk example_world [PDict phase_reset] [] 0 [(''phase'', PInt 1)] =
     (Inr None, [PDict phase_reset], [(''phase'', PInt 1)]) \<and>
   walk example_world [PDict temp_reset] [] 0 [(''keep'', PInt 2)] =
     (Inr None, [PDict temp_reset], [(''keep'', PInt 2)])"
proof -
  have k1: "map_of phase_reset ''kind'' = Some (PStr ''reset'')" by (simp add: phase_reset_def)
  have e1: "\<not> cfg_flag phase_reset ''disabled''" by (simp add: phase_reset_def cfg_flag_def)
  have i1: "Item_init example_world phase_reset = Inr phase_reset"
    by (simp add: phase_reset_def item_defs)
  have d1: "reset_deletions example_world phase_reset s = Inr s" for s
    by (simp add: phase_reset_def reset_deletions_def)
  have k2: "map_of temp_reset ''kind'' = Some (PStr ''reset'')" by (simp add: temp_reset_def)
  have e2: "\<not> cfg_flag temp_reset ''disabled''" by (simp add: temp_reset_def cfg_flag_def)
  have i2: "Item_init example_world temp_reset = Inr temp_reset"
    by (simp add: temp_reset_def item_defs)
  have d2: "reset_deletions example_world temp_reset [(''keep'', PInt 2)] = Inr [(''keep'', PInt 2)]"
    by (simp add: temp_reset_def reset_deletions_def example_world_def store_defs)
  have a: "walk example_world [PDict phase_reset] [] 0 [] =
     (Inl RetryWalk, [PDict phase_reset], [(''phase'', PInt 1)])"
    using walk_reset_node[where s="[]" and rest="[]" and wp="[]" and i=0, OF k1 e1 i1 d1]
    by (simp add: phase_reset_def item_defs store_defs)
  have b: "walk example_world [PDict phase_reset] [] 0 [(''phase'', PInt 1)] =
     (Inr None, [PDict phase_reset], [(''phase'', PInt 1)])"
    using walk_reset_node[where s="[(''phase'', PInt 1)]" and rest="[]" and wp="[]" and i=0,
        OF k1 e1 i1 d1]
    by (simp add: phase_reset_def item_defs store_defs)
  have c: "walk example_world [PDict temp_reset] [] 0 [(''keep'', PInt 2)] =
     (Inr None, [PDict temp_reset], [(''keep'', PInt 2)])"
    using walk_reset_node[where rest="[]" and wp="[]" and i=0, OF k2 e2 i2 d2]
    by (simp add: temp_reset_def)
  show ?thesis using a b c by blast
qed

text \<open>
  Claim C3 fails on the code. The walk handles \<open>reset\<close> together with \<open>branch\<close>, \<open>notice\<close>,
  \<open>question\<close> and \<open>set\<close>, where \<open>RetryWalk\<close> is raised only after a commit of the node's own
  key; the branch written for \<open>reset\<close> alone, which ends in an unconditional
  \<open>raise RetryWalk()\<close>, comes later in the same \<open>elif\<close> chain and is never reached. A reset
  node without a key is passed over: the walk returns \<open>None\<close> and \<open>next()\<close> returns after this
  single walk. So is a reset node whose key is already set.
\<close>

theorem reset_without_commit_no_restart:
  "walk example_world [PDict temp_reset] [] 0 [(''keep'', PInt 2)] =
     (Inr None, [PDict temp_reset], [(''keep'', PInt 2)]) \<and>
   next_item 1 example_world [PDict temp_reset] [(''keep'', PInt 2)] =
     Some (Inr None, [PDict temp_reset], [(''keep'', PInt 2)]) \<and>
   walk example_world [PDict phase_reset] [] 0 [(''phase'', PInt 1)] =
     (Inr None, [PDict phase_reset], [(''phase'', PInt 1)]) \<and>
   next_item 1 example_world [PDict phase_reset] [(''phase'', PInt 1)] =
     Some (Inr None, [PDict phase_reset], [(''phase'', PInt 1)])"
  by (simp add: temp_reset_def phase_reset_def example_world_def item_defs store_defs walk_defs)

section \<open>Update nodes and repeated scans\<close>

text \<open>The walk of a document in two parts: the second part is walked when the first
  returned \<open>None\<close>, with the indices going on.\<close>

lemma walk_length: "walk w xs wp i s = (r, xs', s') \<Longrightarrow> length xs' = length xs"
proof (induction xs arbitrary: i s r xs' s')
  case Nil then show ?case by simp
next
  case (Cons x xs)
  then show ?case
    by (auto split: prod.splits step.splits sum.splits option.splits)
qed



lemma update_node_plain:
  "update_node k v = PDict c \<Longrightarrow> plain_update c k (increment v)"
  by (cases v) (auto simp: update_node_def plain_update_def increment_def cfg_flag_def)





end
